theory Spec2Isabelle
  imports Complex_Main "HOL-Library.Log_Nat" "HOL-Library.AList"
begin

section \<open>Python floats\<close>

text \<open>
  Both generators compute with Python floats (IEEE 754 binary64) and write them with the
  format specification \<^verbatim>\<open>.16e\<close>. A float is modelled by its exact value: every
  finite binary64 number is a rational, and the result of an arithmetic operation is the
  exact rational result rounded to the nearest binary64 number, ties to even. The zero with
  the sign bit set, the two infinities and the not-a-number are separate values.
\<close>

datatype pyfloat = Finite rat | NegZero | Infinity bool | NaN

datatype exn =
    ImportError string
  | IndexError
  | ZeroDivisionError
  | Error string
  | SystemExit nat

definition ilog :: "nat \<Rightarrow> rat \<Rightarrow> int" where
  \<comment> \<open>for \<open>0 < q\<close> and \<open>1 < b\<close>: the \<open>k\<close> with \<open>b ^ k \<le> q < b ^ (k + 1)\<close>\<close>
  "ilog b q =
     (let n = fst (quotient_of q); d = snd (quotient_of q);
          k = int (floorlog b (nat n)) - int (floorlog b (nat d))
      in if of_nat b powi k \<le> q then k else k - 1)"

definition round_half_even :: "rat \<Rightarrow> int" where
  "round_half_even q =
     (let f = \<lfloor>q\<rfloor>; r = q - of_int f
      in if r < 1 / 2 then f else if 1 / 2 < r then f + 1 else if even f then f else f + 1)"

definition rnd :: "rat \<Rightarrow> pyfloat" where
  \<comment> \<open>round to nearest binary64, ties to even: 53 bits, exponents from -1022 to 1023,
      gradual underflow, overflow to an infinity\<close>
  "rnd q =
     (let a = \<bar>q\<bar>;
          e = max (ilog 2 a) (- 1022);
          u = 2 powi (e - 52);
          m = round_half_even (a / u);
          r = of_int m * u
      in if q = 0 then Finite 0
         else if 2 powi 1024 \<le> r then Infinity (q < 0)
         else if m = 0 then (if q < 0 then NegZero else Finite 0)
         else Finite (if q < 0 then - r else r))"

fun is_zero :: "pyfloat \<Rightarrow> bool" where
  "is_zero (Finite q) = (q = 0)"
| "is_zero NegZero = True"
| "is_zero _ = False"

fun is_inf :: "pyfloat \<Rightarrow> bool" where
  "is_inf (Infinity s) = True"
| "is_inf _ = False"

fun is_finite :: "pyfloat \<Rightarrow> bool" where
  "is_finite (Finite q) = True"
| "is_finite NegZero = True"
| "is_finite _ = False"

fun sign_bit :: "pyfloat \<Rightarrow> bool" where
  "sign_bit (Finite q) = (q < 0)"
| "sign_bit NegZero = True"
| "sign_bit (Infinity s) = s"
| "sign_bit NaN = False"

fun val :: "pyfloat \<Rightarrow> rat" where
  "val (Finite q) = q"
| "val _ = 0"

definition signed_zero :: "bool \<Rightarrow> pyfloat" where
  "signed_zero s = (if s then NegZero else Finite 0)"

fun fneg :: "pyfloat \<Rightarrow> pyfloat" where
  "fneg (Finite q) = (if q = 0 then NegZero else Finite (- q))"
| "fneg NegZero = Finite 0"
| "fneg (Infinity s) = Infinity (\<not> s)"
| "fneg NaN = NaN"

definition fadd :: "pyfloat \<Rightarrow> pyfloat \<Rightarrow> pyfloat" where
  "fadd x y =
     (if x = NaN \<or> y = NaN then NaN
      else if is_inf x \<and> is_inf y then (if sign_bit x = sign_bit y then x else NaN)
      else if is_inf x then x
      else if is_inf y then y
      else if is_zero x \<and> is_zero y then signed_zero (sign_bit x \<and> sign_bit y)
      else if val x + val y = 0 then Finite 0
      else rnd (val x + val y))"

definition fsub :: "pyfloat \<Rightarrow> pyfloat \<Rightarrow> pyfloat" where
  "fsub x y = fadd x (fneg y)"

definition fmul :: "pyfloat \<Rightarrow> pyfloat \<Rightarrow> pyfloat" where
  "fmul x y =
     (if x = NaN \<or> y = NaN then NaN
      else if is_inf x \<or> is_inf y then
        (if is_zero x \<or> is_zero y then NaN else Infinity (sign_bit x \<noteq> sign_bit y))
      else if is_zero x \<or> is_zero y then signed_zero (sign_bit x \<noteq> sign_bit y)
      else rnd (val x * val y))"

definition fdiv :: "pyfloat \<Rightarrow> pyfloat \<Rightarrow> pyfloat" where
  \<comment> \<open>the IEEE division, as numpy's arrays divide\<close>
  "fdiv x y =
     (if x = NaN \<or> y = NaN then NaN
      else if is_inf x then (if is_inf y then NaN else Infinity (sign_bit x \<noteq> sign_bit y))
      else if is_inf y then signed_zero (sign_bit x \<noteq> sign_bit y)
      else if is_zero y then
        (if is_zero x then NaN else Infinity (sign_bit x \<noteq> sign_bit y))
      else if is_zero x then signed_zero (sign_bit x \<noteq> sign_bit y)
      else rnd (val x / val y))"

definition truediv :: "pyfloat \<Rightarrow> pyfloat \<Rightarrow> exn + pyfloat" where
  \<comment> \<open>Python's \<^verbatim>\<open>/\<close> on floats raises on a zero divisor\<close>
  "truediv x y = (if is_zero y then Inl ZeroDivisionError else Inr (fdiv x y))"

definition math_sqrt_2 :: pyfloat where
  \<comment> \<open>the value of \<^verbatim>\<open>math.sqrt(2)\<close>: the binary64 number nearest to the square root of 2,
      bit pattern 0x3FF6A09E667F3BCD\<close>
  "math_sqrt_2 = Finite (6369051672525773 / 4503599627370496)"

definition math_pi :: pyfloat where
  \<comment> \<open>the value of \<^verbatim>\<open>math.pi\<close>, bit pattern 0x400921FB54442D18\<close>
  "math_pi = Finite (884279719003555 / 281474976710656)"

subsection \<open>The format specification \<^verbatim>\<open>.16e\<close>\<close>

definition digit_char :: "nat \<Rightarrow> char" where
  "digit_char d = ''0123456789'' ! d"

fun str_nat :: "nat \<Rightarrow> string" where
  "str_nat n = (if n < 10 then [digit_char n] else str_nat (n div 10) @ [digit_char (n mod 10)])"

declare str_nat.simps [simp del]

definition sci_digits :: "rat \<Rightarrow> nat \<times> int" where
  \<comment> \<open>for \<open>0 < q\<close>: the 17 significant digits as a number, and the decimal exponent;
      correctly rounded, ties to even\<close>
  "sci_digits q =
     (let k = ilog 10 q;
          n = nat (round_half_even (q * 10 powi (16 - k)))
      in if n = 10 ^ 17 then (10 ^ 16, k + 1) else (n, k))"

definition fmt_exp :: "int \<Rightarrow> string" where
  \<comment> \<open>exponent sign, then at least two digits\<close>
  "fmt_exp k =
     (if k < 0 then ''-'' else ''+'') @
     (let s = str_nat (nat \<bar>k\<bar>) in if length s < 2 then ''0'' @ s else s)"

definition fmt_sci :: "rat \<Rightarrow> string" where
  \<comment> \<open>for \<open>0 \<le> q\<close>\<close>
  "fmt_sci q =
     (if q = 0 then ''0.0000000000000000e+00''
      else let s = str_nat (fst (sci_digits q))
           in take 1 s @ ''.'' @ drop 1 s @ ''e'' @ fmt_exp (snd (sci_digits q)))"

fun format_e16 :: "pyfloat \<Rightarrow> string" where
  "format_e16 (Finite q) = (if q < 0 then ''-'' @ fmt_sci (- q) else fmt_sci q)"
| "format_e16 NegZero = ''-'' @ fmt_sci 0"
| "format_e16 (Infinity s) = (if s then ''-inf'' else ''inf'')"
| "format_e16 NaN = ''nan''"


subsection \<open>The shape of a formatted number\<close>

definition is_digit :: "char \<Rightarrow> bool" where
  "is_digit c = (c \<in> set ''0123456789'')"

definition mantissa_e16 :: "string \<Rightarrow> bool" where
  \<comment> \<open>d.dddddddddddddddd: one digit, the point, sixteen digits\<close>
  "mantissa_e16 m =
     (length m = 18 \<and> is_digit (m ! 0) \<and> m ! 1 = CHR ''.'' \<and> list_all is_digit (drop 2 m))"

definition exponent_e :: "string \<Rightarrow> bool" where
  \<comment> \<open>a sign and at least two digits\<close>
  "exponent_e x =
     (3 \<le> length x \<and> (x ! 0 = CHR ''+'' \<or> x ! 0 = CHR ''-'') \<and> list_all is_digit (drop 1 x))"

definition unsigned_e16 :: "string \<Rightarrow> bool" where
  "unsigned_e16 t =
     (mantissa_e16 (take 18 t) \<and> take 1 (drop 18 t) = ''e'' \<and> exponent_e (drop 19 t))"

definition sci_e16 :: "string \<Rightarrow> bool" where
  \<comment> \<open>a minus sign or nothing, the mantissa, a lowercase e, the exponent\<close>
  "sci_e16 s = (if take 1 s = ''-'' then unsigned_e16 (drop 1 s) else unsigned_e16 s)"

definition spec_pattern :: "string \<Rightarrow> bool" where
  \<comment> \<open>the pattern \<^verbatim>\<open>d.dddddddddddddddde+dd\<close> or \<^verbatim>\<open>d.dddddddddddddddde-dd\<close> read
      literally: 22 characters\<close>
  "spec_pattern s = (unsigned_e16 s \<and> length s = 22)"

definition sig_digits :: "string \<Rightarrow> nat" where
  \<comment> \<open>the number of digits of the mantissa\<close>
  "sig_digits s = length (filter is_digit (takeWhile (\<lambda>c. c \<noteq> CHR ''e'') s))"


section \<open>Files, console and statements\<close>

text \<open>
  Neither generator reads a file or the console: all a run does to the outside is to write
  whole files and to print lines. A statement is therefore modelled by the sequence of these
  actions, in order, and by how it ends: normally, or with an exception raised after the
  actions. Running the actions on a state of the file system and of the console gives the
  state after the statement.
\<close>

datatype action =
    Write string string \<comment> \<open>\<^verbatim>\<open>with open(path, 'w') as f\<close> and the text written to \<^verbatim>\<open>f\<close>\<close>
  | Print string
  | PrintFileCount string \<comment> \<open>\<^verbatim>\<open>print("Total files created:", len(os.listdir(dir)))\<close>\<close>

type_synonym stmt = "action list \<times> exn option"

definition skip :: stmt where
  "skip = ([], None)"

definition raise :: "exn \<Rightarrow> stmt" where
  "raise e = ([], Some e)"

definition andthen :: "stmt \<Rightarrow> stmt \<Rightarrow> stmt" where
  \<comment> \<open>the second statement runs only when the first one ends normally\<close>
  "andthen s t = (case snd s of None \<Rightarrow> (fst s @ fst t, snd t) | Some e \<Rightarrow> s)"

fun block :: "stmt list \<Rightarrow> stmt" where
  "block [] = skip"
| "block (s # ss) = andthen s (block ss)"

definition eval :: "exn + 'a \<Rightarrow> ('a \<Rightarrow> stmt) \<Rightarrow> stmt" where
  \<comment> \<open>evaluate an expression that may raise, then go on with its value\<close>
  "eval r k = (case r of Inl e \<Rightarrow> raise e | Inr v \<Rightarrow> k v)"

definition print :: "string \<Rightarrow> stmt" where
  "print line = ([Print line], None)"

definition write_file :: "string \<Rightarrow> string \<Rightarrow> stmt" where
  "write_file path text = ([Write path text], None)"

definition for_each :: "('a \<Rightarrow> stmt) \<Rightarrow> 'a list \<Rightarrow> stmt" where
  \<comment> \<open>a for loop: the body for each element in turn, until one raises\<close>
  "for_each body xs = block (map body xs)"

definition try_except_pass :: "stmt \<Rightarrow> stmt" where
  \<comment> \<open>\<^verbatim>\<open>try: ... except: pass\<close>: what was done before the exception stays done\<close>
  "try_except_pass s = (fst s, None)"

definition writes :: "stmt \<Rightarrow> (string \<times> string) list" where
  \<comment> \<open>the file writes, in order: path and text\<close>
  "writes s = concat (map (\<lambda>a. case a of Write path text \<Rightarrow> [(path, text)] | _ \<Rightarrow> []) (fst s))"

definition written :: "stmt \<Rightarrow> string list" where
  \<comment> \<open>the paths opened for writing, in order\<close>
  "written s = map fst (writes s)"

record world =
  files :: "(string \<times> string) list"
  stdout :: "string list"

definition read_file :: "world \<Rightarrow> string \<Rightarrow> string option" where
  "read_file w path = map_of (files w) path"

definition os_listdir :: "string \<Rightarrow> world \<Rightarrow> string list" where
  \<comment> \<open>the entries of a directory: the first path component below it of every file\<close>
  "os_listdir d w =
     remdups (map (\<lambda>p. takeWhile (\<lambda>c. c \<noteq> CHR ''/'') (drop (length d + 1) p))
       (filter (\<lambda>p. take (length d + 1) p = d @ ''/'') (map fst (files w))))"

fun perform :: "action \<Rightarrow> world \<Rightarrow> world" where
  "perform (Write path text) w = w\<lparr>files := AList.update path text (files w)\<rparr>"
| "perform (Print line) w = w\<lparr>stdout := stdout w @ [line]\<rparr>"
| "perform (PrintFileCount d) w =
     w\<lparr>stdout := stdout w @ [''Total files created: '' @ str_nat (length (os_listdir d w))]\<rparr>"

definition run :: "stmt \<Rightarrow> world \<Rightarrow> world" where
  "run s w = foldl (\<lambda>w a. perform a w) w (fst s)"

definition exit_status :: "stmt \<Rightarrow> nat" where
  \<comment> \<open>of the interpreter running the statement as the script: an exception that reaches
      the top is reported on the error stream and gives status 1\<close>
  "exit_status s = (case snd s of None \<Rightarrow> 0 | Some (SystemExit n) \<Rightarrow> n | Some _ \<Rightarrow> 1)"

definition os_path_join :: "string \<Rightarrow> string \<Rightarrow> string" where
  "os_path_join a b =
     (if take 1 b = ''/'' then b
      else if a = [] \<or> last a = CHR ''/'' then a @ b
      else a @ ''/'' @ b)"

definition sbind :: "exn + 'a \<Rightarrow> ('a \<Rightarrow> exn + 'b) \<Rightarrow> exn + 'b" where
  "sbind r f = (case r of Inl e \<Rightarrow> Inl e | Inr v \<Rightarrow> f v)"

fun smap :: "('a \<Rightarrow> exn + 'b) \<Rightarrow> 'a list \<Rightarrow> exn + 'b list" where
  "smap f [] = Inr []"
| "smap f (x # xs) = sbind (f x) (\<lambda>y. sbind (smap f xs) (\<lambda>ys. Inr (y # ys)))"

definition getitem :: "'a list \<Rightarrow> nat \<Rightarrow> exn + 'a" where
  "getitem xs i = (if i < length xs then Inr (xs ! i) else Inl IndexError)"

section \<open>The serializers\<close>

definition LF :: char where
  "LF = CHR 0x0A"

definition header_text :: "string option \<Rightarrow> string" where
  \<comment> \<open>\<^verbatim>\<open>if header: f.write(f"# {header}\n")\<close>: nothing for \<^verbatim>\<open>None\<close> and for the
      empty string\<close>
  "header_text header =
     (case header of None \<Rightarrow> [] | Some h \<Rightarrow> if h = [] then [] else ''# '' @ h @ [LF])"

fun join :: "string \<Rightarrow> string list \<Rightarrow> string" where
  "join sep [] = []"
| "join sep [x] = x"
| "join sep (x # y # ys) = x @ sep @ join sep (y # ys)"

definition vector_body :: "pyfloat list \<Rightarrow> string" where
  "vector_body data = concat (map (\<lambda>v. format_e16 v @ [LF]) data)"

definition matrix_body :: "pyfloat list list \<Rightarrow> string" where
  "matrix_body data = concat (map (\<lambda>row. join '' '' (map format_e16 row) @ [LF]) data)"

definition complex_field :: "pyfloat \<times> pyfloat \<Rightarrow> string" where
  "complex_field z = format_e16 (fst z) @ '','' @ format_e16 (snd z)"

definition complex_matrix_body :: "(pyfloat \<times> pyfloat) list list \<Rightarrow> string" where
  "complex_matrix_body data =
     concat (map (\<lambda>row. join '' '' (map complex_field row) @ [LF]) data)"

definition save_vector :: "string \<Rightarrow> pyfloat list \<Rightarrow> string \<Rightarrow> string option \<Rightarrow> stmt" where
  \<comment> \<open>the first argument is the module's \<^verbatim>\<open>output_dir\<close>\<close>
  "save_vector dir data filename header =
     block [write_file (os_path_join dir filename) (header_text header @ vector_body data),
            print (''Generated: '' @ filename)]"

definition save_matrix :: "string \<Rightarrow> pyfloat list list \<Rightarrow> string \<Rightarrow> string option \<Rightarrow> stmt" where
  "save_matrix dir data filename header =
     block [write_file (os_path_join dir filename) (header_text header @ matrix_body data),
            print (''Generated: '' @ filename)]"

definition save_complex_matrix ::
  "string \<Rightarrow> (pyfloat \<times> pyfloat) list list \<Rightarrow> string \<Rightarrow> string option \<Rightarrow> stmt" where
  "save_complex_matrix dir data filename header =
     block [write_file (os_path_join dir filename) (header_text header @ complex_matrix_body data),
            print (''Generated: '' @ filename)]"

subsection \<open>Reading a written file back\<close>

fun split_on :: "char \<Rightarrow> string \<Rightarrow> string list" where
  \<comment> \<open>the fields between the occurrences of a separator\<close>
  "split_on c [] = [[]]"
| "split_on c (x # xs) =
     (if x = c then [] # split_on c xs
      else (case split_on c xs of [] \<Rightarrow> [[x]] | l # ls \<Rightarrow> (x # l) # ls))"

definition file_lines :: "string \<Rightarrow> string list" where
  \<comment> \<open>the lines of a text, each ended by a line feed; what follows the last line feed is
      not a line\<close>
  "file_lines text = butlast (split_on LF text)"

section \<open>The basic generator: generate\_basic\_reference.py\<close>

text \<open>
  What the script takes from its platform: the absolute path of a relative one, which
  depends on the working directory, and the sine of the C library. Small integers that meet
  a float in an arithmetic expression are converted exactly, so they are written as floats.
\<close>

record platform =
  os_path_abspath :: "string \<Rightarrow> string"
  libm_sin :: "pyfloat \<Rightarrow> pyfloat"

definition basic_output_dir :: string where
  "basic_output_dir = ''../src/test/resources/testdata''"

definition math_sin :: "platform \<Rightarrow> pyfloat \<Rightarrow> exn + pyfloat" where
  \<comment> \<open>\<^verbatim>\<open>math.sin\<close> raises ValueError on an infinity\<close>
  "math_sin pf x =
     (if is_inf x then Inl (Error ''math domain error'')
      else if x = NaN then Inr NaN
      else Inr (libm_sin pf x))"

definition range_step :: "nat \<Rightarrow> nat \<Rightarrow> nat \<Rightarrow> nat list" where
  \<comment> \<open>\<^verbatim>\<open>range(start, stop, step)\<close> for a positive step\<close>
  "range_step start stop step =
     map (\<lambda>j. start + j * step) [0..<(stop - start + step - 1) div step]"

fun haar_loop ::
  "pyfloat list \<Rightarrow> pyfloat \<Rightarrow> nat list \<Rightarrow> pyfloat list \<times> pyfloat list
     \<Rightarrow> exn + pyfloat list \<times> pyfloat list" where
  \<comment> \<open>the loop over the even indices, appending to \<^verbatim>\<open>approx1\<close> and \<^verbatim>\<open>detail1\<close>\<close>
  "haar_loop signal sqrt2 [] acc = Inr acc"
| "haar_loop signal sqrt2 (i # rest) acc =
     sbind (getitem signal i) (\<lambda>a.
     sbind (getitem signal (i + 1)) (\<lambda>b.
     sbind (truediv (fadd a b) sqrt2) (\<lambda>s.
     sbind (truediv (fsub a b) sqrt2) (\<lambda>d.
     haar_loop signal sqrt2 rest (fst acc @ [s], snd acc @ [d])))))"

definition haar_signal :: "pyfloat list" where
  "haar_signal = map Finite [1, 2, 3, 4, 5, 6, 7, 8]"

definition haar_manual :: "exn + pyfloat list \<times> pyfloat list" where
  \<comment> \<open>\<^verbatim>\<open>approx1\<close> and \<^verbatim>\<open>detail1\<close> after the loop\<close>
  "haar_manual =
     haar_loop haar_signal math_sqrt_2 (range_step 0 (length haar_signal) 2) ([], [])"

definition generate_haar_reference :: stmt where
  "generate_haar_reference =
     block [
       print (LF # ''=== Generating Haar Wavelet Reference Data ===''),
       eval haar_manual (\<lambda>coeffs. block [
         save_vector basic_output_dir haar_signal ''haar_simple_input.txt''
           (Some ''Simple test signal [1,2,3,4,5,6,7,8]''),
         save_vector basic_output_dir (fst coeffs) ''haar_level1_approx_manual.txt''
           (Some ''Haar level 1 approximation (manual calc)''),
         save_vector basic_output_dir (snd coeffs) ''haar_level1_detail_manual.txt''
           (Some ''Haar level 1 detail (manual calc)'')]),
       save_vector basic_output_dir (replicate 8 (Finite 5)) ''haar_constant_input.txt''
         (Some ''Constant signal [5,5,5,5,5,5,5,5]''),
       save_vector basic_output_dir (map (\<lambda>i. Finite (of_nat i)) [0..<8]) ''haar_linear_input.txt''
         (Some ''Linear signal [0,1,2,3,4,5,6,7]'')]"

definition dc_signal :: "pyfloat list" where
  "dc_signal = replicate 8 (Finite 1)"

definition dc_fft_real :: "pyfloat list" where
  "dc_fft_real = [Finite 8] @ replicate 7 (Finite 0)"

definition dc_fft_imag :: "pyfloat list" where
  "dc_fft_imag = replicate 8 (Finite 0)"

definition sine_arg :: "nat \<Rightarrow> exn + pyfloat" where
  \<comment> \<open>\<^verbatim>\<open>2 * math.pi * i / 8\<close>\<close>
  "sine_arg i = truediv (fmul (fmul (Finite 2) math_pi) (Finite (of_nat i))) (Finite 8)"

definition sine_signal :: "platform \<Rightarrow> exn + pyfloat list" where
  "sine_signal pf = smap (\<lambda>i. sbind (sine_arg i) (math_sin pf)) [0..<8]"

definition impulse :: "pyfloat list" where
  "impulse = (replicate 8 (Finite 0))[0 := Finite 1]"

definition impulse_fft_real :: "pyfloat list" where
  "impulse_fft_real = replicate 8 (Finite 1)"

definition impulse_fft_imag :: "pyfloat list" where
  "impulse_fft_imag = replicate 8 (Finite 0)"

definition basic_generate_fft_reference :: "platform \<Rightarrow> stmt" where
  "basic_generate_fft_reference pf =
     block [
       print (LF # ''=== Generating FFT Reference Data ===''),
       save_vector basic_output_dir dc_signal ''fft_dc_input.txt'' (Some ''DC signal (all ones)''),
       save_vector basic_output_dir dc_fft_real ''fft_dc_output_real.txt''
         (Some ''FFT of DC signal (real part)''),
       save_vector basic_output_dir dc_fft_imag ''fft_dc_output_imag.txt''
         (Some ''FFT of DC signal (imaginary part)''),
       eval (sine_signal pf) (\<lambda>s.
         save_vector basic_output_dir s ''fft_sine_simple_input.txt''
           (Some ''One cycle sine wave over 8 points'')),
       save_vector basic_output_dir impulse ''fft_impulse_input.txt'' (Some ''Impulse signal''),
       save_vector basic_output_dir impulse_fft_real ''fft_impulse_output_real.txt''
         (Some ''FFT of impulse (real)''),
       save_vector basic_output_dir impulse_fft_imag ''fft_impulse_output_imag.txt''
         (Some ''FFT of impulse (imag)'')]"

definition haar_filter :: "rat list \<Rightarrow> exn + pyfloat list" where
  \<comment> \<open>a list \<^verbatim>\<open>[c/sqrt2, ...]\<close> with \<^verbatim>\<open>c\<close> either 1 or -1\<close>
  "haar_filter cs = smap (\<lambda>c. truediv (Finite c) math_sqrt_2) cs"

definition db4_dec_lo :: "pyfloat list" where
  \<comment> \<open>the four decimal literals, each read as the nearest float\<close>
  "db4_dec_lo =
     [rnd (48296291314469025 / 10 ^ 17),
      rnd (83651630373746899 / 10 ^ 17),
      rnd (22414386804185735 / 10 ^ 17),
      fneg (rnd (12940952255092145 / 10 ^ 17))]"

definition db4_dec_hi :: "pyfloat list" where
  "db4_dec_hi =
     [fneg (rnd (12940952255092145 / 10 ^ 17)),
      fneg (rnd (22414386804185735 / 10 ^ 17)),
      rnd (83651630373746899 / 10 ^ 17),
      fneg (rnd (48296291314469025 / 10 ^ 17))]"

definition generate_wavelet_filters :: stmt where
  "generate_wavelet_filters =
     block [
       print (LF # ''=== Generating Wavelet Filter Coefficients ===''),
       eval (haar_filter [1, 1]) (\<lambda>haar_dec_lo.
       eval (haar_filter [1, - 1]) (\<lambda>haar_dec_hi.
       eval (haar_filter [1, 1]) (\<lambda>haar_rec_lo.
       eval (haar_filter [- 1, 1]) (\<lambda>haar_rec_hi. block [
         save_vector basic_output_dir haar_dec_lo ''filter_haar_dec_lo.txt''
           (Some ''Haar decomposition low-pass''),
         save_vector basic_output_dir haar_dec_hi ''filter_haar_dec_hi.txt''
           (Some ''Haar decomposition high-pass''),
         save_vector basic_output_dir haar_rec_lo ''filter_haar_rec_lo.txt''
           (Some ''Haar reconstruction low-pass''),
         save_vector basic_output_dir haar_rec_hi ''filter_haar_rec_hi.txt''
           (Some ''Haar reconstruction high-pass''),
         save_vector basic_output_dir haar_dec_lo ''filter_db2_dec_lo.txt''
           (Some ''Daubechies 2 = Haar'')])))),
       save_vector basic_output_dir db4_dec_lo ''filter_db4_dec_lo.txt''
         (Some ''Daubechies 4 decomposition low-pass''),
       save_vector basic_output_dir db4_dec_hi ''filter_db4_dec_hi.txt''
         (Some ''Daubechies 4 decomposition high-pass'')]"

definition cwt_test_params :: string where
  "cwt_test_params =
     ''# CWT test parameters'' @ [LF] @
     ''sampling_rate=1000.0'' @ [LF] @
     ''signal_length=256'' @ [LF] @
     ''num_scales=20'' @ [LF] @
     ''scale_min=1.0'' @ [LF] @
     ''scale_max=50.0'' @ [LF]"

definition generate_test_parameters :: stmt where
  "generate_test_parameters =
     block [
       print (LF # ''=== Generating Test Parameters ===''),
       write_file (os_path_join basic_output_dir ''cwt_test_params.txt'') cwt_test_params,
       print ''Generated: cwt_test_params.txt'']"

definition print_file_count :: "string \<Rightarrow> stmt" where
  "print_file_count dir = ([PrintFileCount dir], None)"

definition basic_main :: "platform \<Rightarrow> stmt" where
  "basic_main pf =
     block [
       print ''Generating basic reference test data for JWave...'',
       print (''Output directory: '' @ os_path_abspath pf basic_output_dir),
       generate_haar_reference,
       basic_generate_fft_reference pf,
       generate_wavelet_filters,
       generate_test_parameters,
       print (LF # ''=== Summary ===''),
       print (''Basic reference data generated successfully in '' @ basic_output_dir),
       print_file_count basic_output_dir,
       print (LF # ''Note: For comprehensive reference data, install numpy, scipy, and pywavelets:''),
       print ''pip install numpy scipy pywavelets'']"

section \<open>The full generator: generate\_reference\_data.py\<close>

text \<open>
  The numeric library (NumPy, SciPy, PyWavelets) is not part of the repository: the script is
  modelled over any library. Its transforms may raise; the elementwise functions of
  NumPy return. An integer array is written as the floats its elements are converted to
  when they are formatted, which is exact for the small integers of the script.
\<close>

type_synonym cfloat = "pyfloat \<times> pyfloat"

record wavelet =
  dec_lo :: "pyfloat list"
  dec_hi :: "pyfloat list"
  rec_lo :: "pyfloat list"
  rec_hi :: "pyfloat list"

record numlib =
  np_sin :: "pyfloat \<Rightarrow> pyfloat"
  np_linspace :: "pyfloat \<Rightarrow> pyfloat \<Rightarrow> nat \<Rightarrow> pyfloat list"
  np_abs :: "cfloat \<Rightarrow> pyfloat"
  np_angle :: "cfloat \<Rightarrow> pyfloat"
  fft_of_real :: "pyfloat list \<Rightarrow> exn + cfloat list"
  fft_of_complex :: "cfloat list \<Rightarrow> exn + cfloat list"
  scipy_signal_chirp :: "pyfloat list \<Rightarrow> pyfloat \<Rightarrow> pyfloat \<Rightarrow> pyfloat \<Rightarrow> exn + pyfloat list"
  scipy_signal_cwt_morlet2 :: "pyfloat list \<Rightarrow> pyfloat list \<Rightarrow> exn + cfloat list list"
  pywt_dwt :: "pyfloat list \<Rightarrow> string \<Rightarrow> exn + pyfloat list \<times> pyfloat list"
  pywt_wavedec :: "pyfloat list \<Rightarrow> string \<Rightarrow> nat \<Rightarrow> exn + pyfloat list list"
  pywt_swt :: "pyfloat list \<Rightarrow> string \<Rightarrow> nat \<Rightarrow> exn + (pyfloat list \<times> pyfloat list) list"
  pywt_Wavelet :: "string \<Rightarrow> exn + wavelet"

record pyenv = platform +
  installed :: "string \<Rightarrow> bool"
  lib :: numlib

definition full_output_dir :: string where
  "full_output_dir = ''../src/test/resources/testdata''"

definition np_arange :: "nat \<Rightarrow> nat \<Rightarrow> pyfloat list" where
  "np_arange start stop = map (\<lambda>k. Finite (of_nat k)) [start..<stop]"

definition signal_1_8 :: "pyfloat list" where
  \<comment> \<open>\<^verbatim>\<open>np.array([1, 2, 3, 4, 5, 6, 7, 8])\<close>\<close>
  "signal_1_8 = map Finite [1, 2, 3, 4, 5, 6, 7, 8]"

definition complex_lines :: "cfloat list \<Rightarrow> string" where
  \<comment> \<open>\<^verbatim>\<open>for val in xs: f.write(f"{val.real:.16e},{val.imag:.16e}\n")\<close>\<close>
  "complex_lines xs = concat (map (\<lambda>z. complex_field z @ [LF]) xs)"

definition full_generate_fft_reference :: "numlib \<Rightarrow> stmt" where
  "full_generate_fft_reference l =
     block [
       print (LF # ''=== Generating FFT Reference Data ===''),
       (let t = map (\<lambda>k. fdiv k (Finite 1000)) (np_arange 0 64);
            signal1 = map (\<lambda>x. np_sin l (fmul (fmul (fmul (Finite 2) math_pi) (Finite 50)) x)) t
        in eval (fft_of_real l signal1) (\<lambda>fft1. block [
             save_vector full_output_dir signal1 ''fft_sine_input.txt''
               (Some ''64-point sine wave at 50Hz, fs=1000Hz''),
             save_vector full_output_dir (map fst fft1) ''fft_sine_output_real.txt''
               (Some ''FFT real part''),
             save_vector full_output_dir (map snd fft1) ''fft_sine_output_imag.txt''
               (Some ''FFT imaginary part'')])),
       (let signal2 = [(Finite 1, Finite 2), (Finite 3, Finite 4), (Finite 5, Finite 6), (Finite 7, Finite 8),
                       (Finite 9, Finite 10), (Finite 11, Finite 12), (Finite 13, Finite 14),
                       (Finite 15, Finite 16)]
        in eval (fft_of_complex l signal2) (\<lambda>fft2. block [
             write_file (os_path_join full_output_dir ''fft_complex_input.txt'')
               (''# Complex test signal'' @ [LF] @ complex_lines signal2),
             write_file (os_path_join full_output_dir ''fft_complex_output.txt'')
               (''# FFT of complex signal'' @ [LF] @ complex_lines fft2),
             print ''Generated: fft_complex_input.txt, fft_complex_output.txt'']))]"

definition enumerate :: "'a list \<Rightarrow> (nat \<times> 'a) list" where
  "enumerate xs = zip [0..<length xs] xs"

definition generate_dwt_reference :: "numlib \<Rightarrow> stmt" where
  "generate_dwt_reference l =
     block [
       print (LF # ''=== Generating DWT Reference Data ===''),
       eval (pywt_dwt l signal_1_8 ''haar'') (\<lambda>coeffs_haar. block [
         save_vector full_output_dir signal_1_8 ''dwt_haar_input.txt''
           (Some ''Test signal [1,2,3,4,5,6,7,8]''),
         save_vector full_output_dir (fst coeffs_haar) ''dwt_haar_approx.txt''
           (Some ''Haar approximation coefficients''),
         save_vector full_output_dir (snd coeffs_haar) ''dwt_haar_detail.txt''
           (Some ''Haar detail coefficients'')]),
       eval (pywt_dwt l signal_1_8 ''db4'') (\<lambda>coeffs_db4. block [
         save_vector full_output_dir (fst coeffs_db4) ''dwt_db4_approx.txt''
           (Some ''Daubechies 4 approximation coefficients''),
         save_vector full_output_dir (snd coeffs_db4) ''dwt_db4_detail.txt''
           (Some ''Daubechies 4 detail coefficients'')]),
       eval (pywt_wavedec l signal_1_8 ''haar'' 3) (\<lambda>coeffs_multi.
         for_each (\<lambda>(i, level_coeffs).
             save_vector full_output_dir level_coeffs (''dwt_haar_multilevel_'' @ str_nat i @ ''.txt'')
               (Some (''Haar multi-level decomposition level '' @ str_nat i)))
           (enumerate coeffs_multi))]"

definition generate_modwt_reference :: "numlib \<Rightarrow> stmt" where
  "generate_modwt_reference l =
     block [
       print (LF # ''=== Generating MODWT Reference Data ===''),
       eval (pywt_swt l signal_1_8 ''haar'' 3) (\<lambda>coeffs. block [
         save_vector full_output_dir signal_1_8 ''modwt_haar_input.txt''
           (Some ''Test signal for MODWT''),
         for_each (\<lambda>(i, (approx, detail)). block [
             save_vector full_output_dir detail
               (''modwt_haar_detail_level'' @ str_nat (i + 1) @ ''.txt'')
               (Some (''MODWT Haar detail coefficients level '' @ str_nat (i + 1))),
             save_vector full_output_dir approx
               (''modwt_haar_approx_level'' @ str_nat (i + 1) @ ''.txt'')
               (Some (''MODWT Haar approximation coefficients level '' @ str_nat (i + 1)))])
           (enumerate coeffs)])]"

definition generate_cwt_reference :: "numlib \<Rightarrow> stmt" where
  "generate_cwt_reference l =
     block [
       print (LF # ''=== Generating CWT Reference Data ===''),
       (let t = np_linspace l (Finite 0) (Finite 1) 1000;
            widths = np_arange 1 31
        in eval (scipy_signal_chirp l t (Finite 10) (Finite 1) (Finite 100)) (\<lambda>signal.
           eval (scipy_signal_cwt_morlet2 l signal widths) (\<lambda>cwt_matrix. block [
             save_vector full_output_dir signal ''cwt_chirp_input.txt''
               (Some ''Chirp signal 10-100Hz, 1 second, fs=1000Hz''),
             save_vector full_output_dir widths ''cwt_scales.txt'' (Some ''CWT scales''),
             save_matrix full_output_dir (map (map (np_abs l)) cwt_matrix)
               ''cwt_morlet_magnitude.txt'' (Some ''CWT magnitude (Morlet)''),
             save_matrix full_output_dir (map (map (np_angle l)) cwt_matrix)
               ''cwt_morlet_phase.txt'' (Some ''CWT phase (Morlet)'')]))),
       (let small_signal = signal_1_8;
            small_scales = map Finite [1, 2, 3, 4]
        in eval (scipy_signal_cwt_morlet2 l small_signal small_scales) (\<lambda>small_cwt. block [
             save_vector full_output_dir small_signal ''cwt_small_input.txt''
               (Some ''Small test signal''),
             save_vector full_output_dir small_scales ''cwt_small_scales.txt''
               (Some ''Small test scales''),
             save_complex_matrix full_output_dir small_cwt ''cwt_small_output.txt''
               (Some ''CWT output (complex)'')]))]"

definition wavelets :: "string list" where
  "wavelets = [''haar'', ''db2'', ''db4'', ''db8'', ''sym4'', ''coif2'']"

definition wavelet_filters :: "numlib \<Rightarrow> string \<Rightarrow> stmt" where
  \<comment> \<open>the body of the loop over the wavelet names\<close>
  "wavelet_filters l wavelet_name =
     eval (pywt_Wavelet l wavelet_name) (\<lambda>wavelet. block [
       save_vector full_output_dir (dec_lo wavelet) (''filter_'' @ wavelet_name @ ''_dec_lo.txt'')
         (Some (wavelet_name @ '' decomposition low-pass filter'')),
       save_vector full_output_dir (dec_hi wavelet) (''filter_'' @ wavelet_name @ ''_dec_hi.txt'')
         (Some (wavelet_name @ '' decomposition high-pass filter'')),
       save_vector full_output_dir (rec_lo wavelet) (''filter_'' @ wavelet_name @ ''_rec_lo.txt'')
         (Some (wavelet_name @ '' reconstruction low-pass filter'')),
       save_vector full_output_dir (rec_hi wavelet) (''filter_'' @ wavelet_name @ ''_rec_hi.txt'')
         (Some (wavelet_name @ '' reconstruction high-pass filter''))])"

definition generate_wavelet_filter_reference :: "numlib \<Rightarrow> stmt" where
  "generate_wavelet_filter_reference l =
     block [
       print (LF # ''=== Generating Wavelet Filter Reference Data ===''),
       for_each (wavelet_filters l) wavelets]"

definition edge_signals :: "(string \<times> pyfloat list) list" where
  \<comment> \<open>the dictionary, in insertion order\<close>
  "edge_signals =
     [(''empty'', []),
      (''single'', [Finite 42]),
      (''power_of_2'', np_arange 0 16),
      (''non_power_of_2'', np_arange 0 13),
      (''zeros'', replicate 8 (Finite 0)),
      (''ones'', replicate 8 (Finite 1)),
      (''impulse'', map Finite [0, 0, 0, 1, 0, 0, 0, 0])]"

definition edge_case :: "numlib \<Rightarrow> string \<times> pyfloat list \<Rightarrow> stmt" where
  \<comment> \<open>the body of the loop over the edge cases\<close>
  "edge_case l item =
     (let name = fst item; signal = snd item in
      if 0 < length signal then
        block [
          save_vector full_output_dir signal (''edge_case_'' @ name @ ''_input.txt'')
            (Some (''Edge case: '' @ name)),
          (if 0 < length signal then
             eval (fft_of_real l signal) (\<lambda>fft_result. block [
               save_vector full_output_dir (map fst fft_result)
                 (''edge_case_'' @ name @ ''_fft_real.txt'') (Some (''FFT real part of '' @ name)),
               save_vector full_output_dir (map snd fft_result)
                 (''edge_case_'' @ name @ ''_fft_imag.txt'') (Some (''FFT imag part of '' @ name))])
           else skip),
          (if 1 < length signal then
             try_except_pass
               (eval (pywt_dwt l signal ''haar'') (\<lambda>coeffs. block [
                  save_vector full_output_dir (fst coeffs)
                    (''edge_case_'' @ name @ ''_dwt_approx.txt'') (Some (''DWT approx of '' @ name)),
                  save_vector full_output_dir (snd coeffs)
                    (''edge_case_'' @ name @ ''_dwt_detail.txt'') (Some (''DWT detail of '' @ name))]))
           else skip)]
      else skip)"

definition generate_special_cases :: "numlib \<Rightarrow> stmt" where
  "generate_special_cases l =
     block [
       print (LF # ''=== Generating Special Test Cases ===''),
       for_each (edge_case l) edge_signals]"

fun exn_text :: "exn \<Rightarrow> string" where
  \<comment> \<open>\<^verbatim>\<open>str(e)\<close>\<close>
  "exn_text (ImportError m) = m"
| "exn_text IndexError = ''list index out of range''"
| "exn_text ZeroDivisionError = ''float division by zero''"
| "exn_text (Error m) = m"
| "exn_text (SystemExit n) = str_nat n"

definition sys_exit :: "nat \<Rightarrow> stmt" where
  "sys_exit n = raise (SystemExit n)"

definition pip_install_line :: string where
  "pip_install_line = ''pip install numpy scipy pywavelets''"

fun main_except :: "exn \<Rightarrow> stmt" where
  \<comment> \<open>the two handlers of \<^verbatim>\<open>main\<close>; \<^verbatim>\<open>SystemExit\<close> is not an \<^verbatim>\<open>Exception\<close> and
      passes through\<close>
  "main_except (ImportError m) =
     block [
       print (LF # ''Error: Missing required Python package.''),
       print ''Please install required packages:'',
       print pip_install_line,
       sys_exit 1]"
| "main_except (SystemExit n) = raise (SystemExit n)"
| "main_except e =
     block [
       print (LF # ''Error generating reference data: '' @ exn_text e),
       sys_exit 1]"

definition try_except :: "stmt \<Rightarrow> (exn \<Rightarrow> stmt) \<Rightarrow> stmt" where
  "try_except body handler =
     (case snd body of None \<Rightarrow> body | Some e \<Rightarrow> andthen (fst body, None) (handler e))"

definition full_main :: "pyenv \<Rightarrow> stmt" where
  "full_main env =
     block [
       print ''Generating reference test data for JWave...'',
       print (''Output directory: '' @ os_path_abspath env full_output_dir),
       try_except
         (block [
            full_generate_fft_reference (lib env),
            generate_dwt_reference (lib env),
            generate_modwt_reference (lib env),
            generate_cwt_reference (lib env),
            generate_wavelet_filter_reference (lib env),
            generate_special_cases (lib env),
            print (LF # ''=== Summary ===''),
            print (''Reference data generated successfully in '' @ full_output_dir),
            print_file_count full_output_dir])
         main_except]"

definition import_module :: "pyenv \<Rightarrow> string \<Rightarrow> stmt" where
  \<comment> \<open>an import statement at the top of the module, for a package by its top-level name\<close>
  "import_module env name =
     (if installed env name then skip
      else raise (ImportError (''No module named '' @ [CHR 0x27] @ name @ [CHR 0x27])))"

definition full_script :: "pyenv \<Rightarrow> stmt" where
  \<comment> \<open>the module from its first line: the imports of numpy, scipy.signal, scipy.fft and
      pywt, then the definitions, then the call of \<^verbatim>\<open>main\<close>\<close>
  "full_script env =
     block [
       import_module env ''numpy'',
       import_module env ''scipy'',
       import_module env ''scipy'',
       import_module env ''pywt'',
       full_main env]"

definition basic_script :: "platform \<Rightarrow> stmt" where
  \<comment> \<open>the basic script imports the standard library only\<close>
  "basic_script pf = basic_main pf"

section \<open>The specification's account of the edge cases\<close>

definition edge_path :: "string \<Rightarrow> string \<Rightarrow> string" where
  \<comment> \<open>the path of the file of an edge case for a role: input, fft\_real, fft\_imag,
      dwt\_approx or dwt\_detail\<close>
  "edge_path name role =
     os_path_join full_output_dir (''edge_case_'' @ name @ ''_'' @ role @ ''.txt'')"

definition spec_edge_case_files :: "numlib \<Rightarrow> string \<times> pyfloat list \<Rightarrow> string list" where
  \<comment> \<open>after the specification, not the code: no file for the empty signal; the input and
      the two FFT files for any other signal; with more than one sample and absent a failure
      of the wavelet transform, its approximation and detail files too\<close>
  "spec_edge_case_files l item =
     (let name = fst item; signal = snd item in
      if signal = [] then []
      else [edge_path name ''input'', edge_path name ''fft_real'', edge_path name ''fft_imag'']
           @ (if 1 < length signal \<and> \<not> isl (pywt_dwt l signal ''haar'')
              then [edge_path name ''dwt_approx'', edge_path name ''dwt_detail''] else []))"

section \<open>Example environments\<close>

text \<open>
  Two environments to instantiate the theorems with. They stand for no real library: in
  the first every transform returns some array of the expected shape, in the second the
  one-level wavelet transform raises.
\<close>

definition example_platform :: platform where
  "example_platform = \<lparr>os_path_abspath = (\<lambda>p. ''/repo/scripts/'' @ p), libm_sin = (\<lambda>x. x)\<rparr>"

definition example_lib :: numlib where
  "example_lib =
     \<lparr>np_sin = (\<lambda>x. x),
      np_linspace = (\<lambda>a b n. replicate n a),
      np_abs = fst,
      np_angle = snd,
      fft_of_real = (\<lambda>xs. Inr (map (\<lambda>x. (x, Finite 0)) xs)),
      fft_of_complex = (\<lambda>zs. Inr zs),
      scipy_signal_chirp = (\<lambda>t f0 t1 f1. Inr t),
      scipy_signal_cwt_morlet2 = (\<lambda>xs ws. Inr (map (\<lambda>w. map (\<lambda>x. (x, Finite 0)) xs) ws)),
      pywt_dwt = (\<lambda>xs name. Inr (xs, xs)),
      pywt_wavedec = (\<lambda>xs name level. Inr (replicate (level + 1) xs)),
      pywt_swt = (\<lambda>xs name level. Inr (replicate level (xs, xs))),
      pywt_Wavelet = (\<lambda>name. Inr \<lparr>dec_lo = replicate 4 (Finite 1), dec_hi = replicate 4 (Finite 1),
                                   rec_lo = replicate 4 (Finite 1), rec_hi = replicate 4 (Finite 1)\<rparr>)\<rparr>"

definition failing_dwt_lib :: numlib where
  \<comment> \<open>as \<open>example_lib\<close>, but the one-level wavelet transform raises\<close>
  "failing_dwt_lib = example_lib\<lparr>pywt_dwt := (\<lambda>xs name. Inl (Error ''dwt failed''))\<rparr>"

definition example_env :: pyenv where
  "example_env =
     \<lparr>os_path_abspath = (\<lambda>p. ''/repo/scripts/'' @ p), libm_sin = (\<lambda>x. x),
      installed = (\<lambda>m. True), lib = example_lib\<rparr>"

section \<open>Rounding and formatting: basic facts\<close>

lemma ilog_bounds:
  assumes q: "0 < q" and b: "1 < b"
  shows "of_nat b powi ilog b q \<le> q \<and> q < of_nat b powi (ilog b q + 1)"
proof -
  obtain n d where nd: "quotient_of q = (n, d)" by (cases "quotient_of q")
  have d: "0 < d" using nd by (rule quotient_of_denom_pos)
  have qe: "q = of_int n / of_int d" using nd by (rule quotient_of_div)
  have n: "0 < n" using q d qe by (simp add: zero_less_divide_iff)
  define N where "N = nat n"
  define D where "D = nat d"
  define B :: rat where "B = of_nat b"
  have B: "1 < B" "0 < B" "B \<noteq> 0" using b by (simp_all add: B_def)
  have N: "0 < N" "of_int n = (of_nat N :: rat)" using n by (simp_all add: N_def)
  have D: "0 < D" "of_int d = (of_nat D :: rat)" using d by (simp_all add: D_def)
  define fn where "fn = floorlog b N"
  define fd where "fd = floorlog b D"
  have fnb: "b ^ (fn - 1) \<le> N" "N < b ^ fn" using floorlog_bounds [OF N(1) b] by (simp_all add: fn_def)
  have fdb: "b ^ (fd - 1) \<le> D" "D < b ^ fd" using floorlog_bounds [OF D(1) b] by (simp_all add: fd_def)
  have fn1: "1 \<le> fn" using N(1) b by (simp add: fn_def floorlog_def)
  have fd1: "1 \<le> fd" using D(1) b by (simp add: fd_def floorlog_def)
  have rn: "B ^ (fn - 1) \<le> of_nat N" "of_nat N < B ^ fn"
    using fnb unfolding B_def by (metis of_nat_le_iff of_nat_power, metis of_nat_less_iff of_nat_power)
  have rd: "B ^ (fd - 1) \<le> of_nat D" "of_nat D < B ^ fd"
    using fdb unfolding B_def by (metis of_nat_le_iff of_nat_power, metis of_nat_less_iff of_nat_power)
  define k where "k = int fn - int fd"
  have qN: "q = of_nat N / of_nat D" using qe N D by simp
  have Dp: "0 < (of_nat D :: rat)" using D by simp
  have hi: "q < B powi (k + 1)"
  proof -
    have "q < B ^ fn / of_nat D" unfolding qN using rn(2) Dp by (simp add: divide_strict_right_mono)
    also have "\<dots> \<le> B ^ fn / B ^ (fd - 1)"
      using rd(1) B Dp by (intro divide_left_mono) (auto intro!: mult_pos_pos)
    also have "\<dots> = B powi (int fn - int (fd - 1))"
      using B by (simp add: power_int_diff)
    also have "int fn - int (fd - 1) = k + 1" using fd1 by (simp add: k_def)
    finally show ?thesis .
  qed
  have lo: "B powi (k - 1) \<le> q"
  proof -
    have "B powi (k - 1) = B ^ (fn - 1) / B ^ fd"
    proof -
      have "k - 1 = int (fn - 1) - int fd" using fn1 by (simp add: k_def)
      then show ?thesis using B by (simp add: power_int_diff)
    qed
    also have "\<dots> \<le> B ^ (fn - 1) / of_nat D"
      using rd(2) Dp B by (intro divide_left_mono) (auto intro!: mult_pos_pos)
    also have "\<dots> \<le> q" unfolding qN using rn(1) Dp by (simp add: divide_right_mono)
    finally show ?thesis .
  qed
  have il: "ilog b q = (if B powi k \<le> q then k else k - 1)"
    by (simp add: ilog_def nd Let_def k_def fn_def fd_def N_def D_def B_def)
  show ?thesis
  proof (cases "B powi k \<le> q")
    case True
    then show ?thesis using hi il by (simp add: B_def)
  next
    case False
    then show ?thesis using lo il by (simp add: B_def)
  qed
qed

lemma ilog_unique:
  assumes q: "0 < q" and b: "1 < b"
    and lo: "of_nat b powi k \<le> q" and hi: "q < of_nat b powi (k + 1)"
  shows "ilog b q = k"
proof -
  define B :: rat where "B = of_nat b"
  have B: "1 < B" using b by (simp add: B_def)
  note ib = ilog_bounds [OF q b, folded B_def]
  have "\<not> ilog b q < k"
  proof
    assume "ilog b q < k"
    then have "B powi (ilog b q + 1) \<le> B powi k" using B by (intro power_int_increasing) auto
    then show False using ib lo by (simp add: B_def)
  qed
  moreover have "\<not> k < ilog b q"
  proof
    assume "k < ilog b q"
    then have "B powi (k + 1) \<le> B powi ilog b q" using B by (intro power_int_increasing) auto
    then show False using ib hi by (simp add: B_def)
  qed
  ultimately show ?thesis by simp
qed


lemma rnd_pos:
  assumes "0 < q" "2 powi e \<le> q" "q < 2 powi (e + 1)"
  shows "rnd q =
     (let u = 2 powi (max e (- 1022) - 52); m = round_half_even (q / u); r = of_int m * u
      in if 2 powi 1024 \<le> r then Infinity False else if m = 0 then Finite 0 else Finite r)"
proof -
  have "ilog 2 q = e" using assms by (intro ilog_unique) simp_all
  then show ?thesis using assms(1) by (simp add: rnd_def Let_def)
qed

lemma rnd_neg:
  assumes "q < 0" "2 powi e \<le> - q" "- q < 2 powi (e + 1)"
  shows "rnd q =
     (let u = 2 powi (max e (- 1022) - 52); m = round_half_even (- q / u); r = of_int m * u
      in if 2 powi 1024 \<le> r then Infinity True else if m = 0 then NegZero else Finite (- r))"
proof -
  have "ilog 2 (- q) = e" using assms by (intro ilog_unique) simp_all
  moreover have "\<bar>q\<bar> = - q" using assms(1) by simp
  ultimately show ?thesis using assms(1) by (simp add: rnd_def Let_def)
qed


lemma round_half_even_near:
  assumes "\<bar>q - of_int m\<bar> < 1 / 2"
  shows "round_half_even q = m"
proof -
  have a: "q - of_int m < 1 / 2" "of_int m - q < 1 / 2" using assms by linarith+
  have "\<lfloor>q\<rfloor> = m \<or> \<lfloor>q\<rfloor> = m - 1"
  proof (cases "of_int m \<le> q")
    case True
    then have "\<lfloor>q\<rfloor> = m" using a by (intro floor_unique) linarith+
    then show ?thesis ..
  next
    case False
    then have "\<lfloor>q\<rfloor> = m - 1" using a by (intro floor_unique) (simp, linarith)+
    then show ?thesis ..
  qed
  then show ?thesis
  proof
    assume f: "\<lfloor>q\<rfloor> = m"
    have "q - of_int \<lfloor>q\<rfloor> < 1 / 2" unfolding f by (rule a(1))
    then show ?thesis using f by (simp add: round_half_even_def Let_def)
  next
    assume f: "\<lfloor>q\<rfloor> = m - 1"
    have "1 / 2 < q - of_int \<lfloor>q\<rfloor>" unfolding f using a(2) by simp
    then have "\<not> q - of_int \<lfloor>q\<rfloor> < 1 / 2" by linarith
    then show ?thesis using f \<open>1 / 2 < q - of_int \<lfloor>q\<rfloor>\<close> by (simp add: round_half_even_def Let_def)
  qed
qed

lemma rnd_pos_near:
  assumes "0 < q" "2 powi e \<le> q" "q < 2 powi (e + 1)" "- 1022 \<le> e"
    and "\<bar>q / 2 powi (e - 52) - of_int m\<bar> < 1 / 2" "0 < m"
    and "of_int m * 2 powi (e - 52) < (2::rat) powi 1024"
  shows "rnd q = Finite (of_int m * 2 powi (e - 52))"
proof -
  have "max e (- 1022) = e" using assms(4) by simp
  moreover have "round_half_even (q / 2 powi (e - 52)) = m"
    using assms(5) by (rule round_half_even_near)
  ultimately show ?thesis
    using assms(6,7) by (simp add: rnd_pos [OF assms(1-3)] Let_def del: power_int_numeral)
qed

lemma is_digit_digit_char: "d < 10 \<Longrightarrow> is_digit (digit_char d)"
proof -
  assume "d < 10"
  then have "d \<in> {0,1,2,3,4,5,6,7,8,9}" by auto
  then show ?thesis by (auto simp: is_digit_def digit_char_def)
qed

lemma str_nat_digits: "list_all is_digit (str_nat n)"
proof (induction n rule: str_nat.induct)
  case (1 n)
  show ?case
  proof (cases "n < 10")
    case True
    then show ?thesis by (subst str_nat.simps) (simp add: is_digit_digit_char)
  next
    case False
    then show ?thesis using 1 by (subst str_nat.simps) (simp add: is_digit_digit_char)
  qed
qed

lemma str_nat_length: "10 ^ m \<le> n \<Longrightarrow> n < 10 ^ Suc m \<Longrightarrow> length (str_nat n) = Suc m"
proof (induction m arbitrary: n)
  case 0
  then show ?case by (subst str_nat.simps) simp
next
  case (Suc m)
  have "(10::nat) \<le> 10 ^ Suc m" by simp
  then have "10 \<le> n" using Suc.prems(1) by (rule le_trans)
  then have "\<not> n < 10" by simp
  moreover have "10 ^ m \<le> n div 10" using Suc.prems(1) by (simp add: less_eq_div_iff_mult_less_eq)
  moreover have "n div 10 < 10 ^ Suc m" using Suc.prems(2) by (simp add: div_less_iff_less_mult)
  ultimately show ?case using Suc.IH [of "n div 10"] by (subst str_nat.simps) simp
qed

lemma str_nat_nonempty: "1 \<le> length (str_nat n)"
  by (subst str_nat.simps) simp


lemma round_half_even_bounds: "\<lfloor>q\<rfloor> \<le> round_half_even q \<and> round_half_even q \<le> \<lfloor>q\<rfloor> + 1"
  by (simp add: round_half_even_def Let_def)

lemma sci_digits_range:
  assumes "0 < q"
  shows "10 ^ 16 \<le> fst (sci_digits q) \<and> fst (sci_digits q) < 10 ^ 17"
proof -
  define k where "k = ilog 10 q"
  define x where "x = q * 10 powi (16 - k)"
  define n where "n = nat (round_half_even x)"
  have kb: "10 powi k \<le> q" "q < 10 powi (k + 1)"
    using ilog_bounds [OF assms, of 10] by (simp_all add: k_def)
  have p: "0 < (10::rat) powi (16 - k)" by simp
  have "10 powi k * 10 powi (16 - k) \<le> x"
    unfolding x_def using kb(1) p by (simp add: mult_right_mono)
  then have lo: "10 ^ 16 \<le> x" by (simp add: power_int_add [symmetric])
  have "x < 10 powi (k + 1) * 10 powi (16 - k)"
    unfolding x_def using kb(2) p by (simp add: mult_strict_right_mono)
  then have hi: "x < 10 ^ 17" by (simp add: power_int_add [symmetric])
  have flo: "10 ^ 16 \<le> \<lfloor>x\<rfloor>" using lo by (simp add: le_floor_iff)
  have fhi: "\<lfloor>x\<rfloor> < 10 ^ 17" using hi by (simp add: floor_less_iff)
  have r: "10 ^ 16 \<le> round_half_even x" "round_half_even x \<le> 10 ^ 17"
    using round_half_even_bounds [of x] flo fhi by linarith+
  have n: "10 ^ 16 \<le> n" "n \<le> 10 ^ 17" using r by (simp_all add: n_def le_nat_iff nat_le_iff)
  have "fst (sci_digits q) = (if n = 10 ^ 17 then 10 ^ 16 else n)"
    by (simp add: sci_digits_def Let_def k_def x_def n_def)
  then show ?thesis using n by auto
qed

lemma fmt_exp_shape: "exponent_e (fmt_exp k)"
proof -
  define s where "s = str_nat (nat \<bar>k\<bar>)"
  have d: "list_all is_digit s" unfolding s_def by (rule str_nat_digits)
  have l: "1 \<le> length s" unfolding s_def by (rule str_nat_nonempty)
  have z: "is_digit CHR ''0''" by (simp add: is_digit_def)
  show ?thesis
  proof (cases "length s < 2")
    case True
    then show ?thesis using d l z by (simp add: fmt_exp_def exponent_e_def Let_def s_def [symmetric])
  next
    case False
    then show ?thesis using d by (simp add: fmt_exp_def exponent_e_def Let_def s_def [symmetric])
  qed
qed

lemma fmt_sci_shape:
  assumes "0 \<le> q"
  shows "\<exists>c r x. fmt_sci q = c # CHR ''.'' # r @ CHR ''e'' # x \<and> is_digit c \<and> length r = 16
           \<and> list_all is_digit r \<and> exponent_e x"
proof (cases "q = 0")
  case True
  have "fmt_sci q = CHR ''0'' # CHR ''.'' # ''0000000000000000'' @ CHR ''e'' # ''+00''"
    using True by (simp add: fmt_sci_def)
  moreover have "is_digit CHR ''0''" by (simp add: is_digit_def)
  moreover have "list_all is_digit ''0000000000000000''" by (simp add: is_digit_def)
  moreover have "exponent_e ''+00''" by (simp add: exponent_e_def is_digit_def)
  moreover have "length ''0000000000000000'' = 16" by simp
  ultimately show ?thesis by blast
next
  case False
  then have q: "0 < q" using assms by simp
  define s where "s = str_nat (fst (sci_digits q))"
  have "length s = Suc 16"
    unfolding s_def using sci_digits_range [OF q] by (intro str_nat_length) simp_all
  then obtain c r where s: "s = c # r" and r: "length r = 16" by (cases s) simp_all
  have "list_all is_digit s" unfolding s_def by (rule str_nat_digits)
  then have d: "is_digit c" "list_all is_digit r" using s by simp_all
  have "fmt_sci q = c # CHR ''.'' # r @ CHR ''e'' # fmt_exp (snd (sci_digits q))"
    using False s by (simp add: fmt_sci_def Let_def s_def [symmetric])
  then show ?thesis using d r fmt_exp_shape by blast
qed

lemma split_on_nonempty: "split_on c s \<noteq> []"
  by (induction s) (simp_all split: list.splits)

lemma split_on_none: "c \<notin> set l \<Longrightarrow> split_on c l = [l]"
  by (induction l) auto

lemma split_on_append: "c \<notin> set l \<Longrightarrow> split_on c (l @ c # rest) = l # split_on c rest"
  by (induction l) auto

lemma split_on_terminated:
  "\<forall>x\<in>set xs. c \<notin> set (f x) \<Longrightarrow> split_on c (concat (map (\<lambda>x. f x @ [c]) xs)) = map f xs @ [[]]"
  by (induction xs) (simp_all add: split_on_append)

lemma file_lines_terminated:
  "\<forall>x\<in>set xs. LF \<notin> set (f x) \<Longrightarrow> file_lines (concat (map (\<lambda>x. f x @ [LF]) xs)) = map f xs"
  by (simp add: file_lines_def split_on_terminated)

lemma split_on_join:
  "xs \<noteq> [] \<Longrightarrow> \<forall>x\<in>set xs. c \<notin> set x \<Longrightarrow> split_on c (join [c] xs) = xs"
proof (induction "[c]" xs rule: join.induct)
  case 1
  then show ?case by simp
next
  case (2 x)
  then show ?case by (simp add: split_on_none)
next
  case (3 x y ys)
  then show ?case by (simp add: split_on_append)
qed

lemma set_join: "set (join sep xs) \<subseteq> set sep \<union> \<Union> (set ` set xs)"
  by (induction sep xs rule: join.induct) auto

lemma is_digit_cases:
  "is_digit c \<Longrightarrow> c \<noteq> LF \<and> c \<noteq> CHR '' '' \<and> c \<noteq> CHR '','' \<and> c \<noteq> CHR ''-'' \<and> c \<noteq> CHR ''e''"
  by (auto simp: is_digit_def LF_def)

lemma exponent_e_chars:
  assumes "exponent_e x" "c \<in> set x"
  shows "c \<noteq> LF \<and> c \<noteq> CHR '' '' \<and> c \<noteq> CHR '',''"
proof -
  obtain s d where x: "x = s # d" using assms(1) by (cases x) (simp_all add: exponent_e_def)
  have s: "s = CHR ''+'' \<or> s = CHR ''-''" and d: "list_all is_digit d"
    using assms(1) x by (simp_all add: exponent_e_def)
  show ?thesis
  proof (cases "c = s")
    case True
    then show ?thesis using s by (auto simp: LF_def)
  next
    case False
    then have "c \<in> set d" using assms(2) x by simp
    then have "is_digit c" using d by (simp add: list_all_iff)
    then show ?thesis using is_digit_cases by blast
  qed
qed

lemma fmt_sci_chars:
  assumes "0 \<le> q" "c \<in> set (fmt_sci q)"
  shows "c \<noteq> LF \<and> c \<noteq> CHR '' '' \<and> c \<noteq> CHR '',''"
proof -
  obtain d r x where f: "fmt_sci q = d # CHR ''.'' # r @ CHR ''e'' # x"
    and d: "is_digit d" and r: "list_all is_digit r" and x: "exponent_e x"
    using fmt_sci_shape [OF assms(1)] by blast
  have "c = d \<or> c = CHR ''.'' \<or> c \<in> set r \<or> c = CHR ''e'' \<or> c \<in> set x"
    using assms(2) f by auto
  then show ?thesis
    using d r is_digit_cases exponent_e_chars [OF x] by (auto simp: list_all_iff LF_def)
qed

lemma format_e16_chars:
  assumes "c \<in> set (format_e16 x)"
  shows "c \<noteq> LF \<and> c \<noteq> CHR '' '' \<and> c \<noteq> CHR '',''"
proof (cases x)
  case (Finite q)
  show ?thesis
  proof (cases "q < 0")
    case True
    then have "c = CHR ''-'' \<or> c \<in> set (fmt_sci (- q))" using assms Finite by auto
    then show ?thesis using fmt_sci_chars [of "- q" c] True by (auto simp: LF_def)
  next
    case False
    then have "c \<in> set (fmt_sci q)" using assms Finite by auto
    then show ?thesis using fmt_sci_chars [of q c] False by auto
  qed
next
  case NegZero
  then have "c = CHR ''-'' \<or> c \<in> set (fmt_sci 0)" using assms by auto
  then show ?thesis using fmt_sci_chars [of 0 c] by (auto simp: LF_def)
next
  case (Infinity s)
  then show ?thesis using assms by (auto simp: LF_def split: if_splits)
next
  case NaN
  then show ?thesis using assms by (auto simp: LF_def)
qed

lemma unsigned_e16_shape:
  assumes "is_digit c" "length r = 16" "list_all is_digit r" "exponent_e x"
  shows "unsigned_e16 (c # CHR ''.'' # r @ CHR ''e'' # x)"
    and "sig_digits (c # CHR ''.'' # r @ CHR ''e'' # x) = 17"
proof -
  have e: "\<forall>a\<in>set r. a \<noteq> CHR ''e''" using assms(3) is_digit_cases by (auto simp: list_all_iff)
  have ce: "c \<noteq> CHR ''e''" using assms(1) is_digit_cases by blast
  have tw: "takeWhile (\<lambda>c. c \<noteq> CHR ''e'') (r @ CHR ''e'' # x) = r"
    using e by (simp add: takeWhile_append2)
  have np: "\<not> is_digit CHR ''.''" by (simp add: is_digit_def)
  have fr: "filter is_digit r = r" using assms(3) by (simp add: list_all_iff filter_id_conv)
  show "sig_digits (c # CHR ''.'' # r @ CHR ''e'' # x) = 17"
    using ce tw np fr assms(1,2) by (simp add: sig_digits_def)
  show "unsigned_e16 (c # CHR ''.'' # r @ CHR ''e'' # x)"
    using assms by (simp add: unsigned_e16_def mantissa_e16_def)
qed

lemma format_e16_finite_shape:
  assumes "is_finite x"
  shows "sci_e16 (format_e16 x)" and "sig_digits (format_e16 x) = 17"
    and "(take 1 (format_e16 x) = ''-'') = sign_bit x"
proof -
  define q where "q = \<bar>val x\<bar>"
  have q: "0 \<le> q" by (simp add: q_def)
  obtain c r e where f: "fmt_sci q = c # CHR ''.'' # r @ CHR ''e'' # e"
    and c: "is_digit c" and r: "length r = 16" "list_all is_digit r" and e: "exponent_e e"
    using fmt_sci_shape [OF q] by blast
  have cm: "c \<noteq> CHR ''-''" using c is_digit_cases by blast
  have fx: "format_e16 x = (if sign_bit x then ''-'' @ fmt_sci q else fmt_sci q)"
    using assms by (cases x) (auto simp: q_def)
  note sh = unsigned_e16_shape [OF c r e]
  have sd: "sig_digits (CHR ''-'' # c # CHR ''.'' # r @ CHR ''e'' # e) = 17"
    using sh(2) by (simp add: sig_digits_def is_digit_def)
  show "sci_e16 (format_e16 x)" using fx f cm sh(1) by (simp add: sci_e16_def)
  show "sig_digits (format_e16 x) = 17" using fx f sh(2) sd by simp
  show "(take 1 (format_e16 x) = ''-'') = sign_bit x" using fx f cm by simp
qed

lemma fmt_sci_eval:
  assumes "0 < q" "10 powi k \<le> q" "q < 10 powi (k + 1)"
    and "\<bar>q * 10 powi (16 - k) - of_nat n\<bar> < 1 / 2" "n < 10 ^ 17"
  shows "fmt_sci q = take 1 (str_nat n) @ ''.'' @ drop 1 (str_nat n) @ ''e'' @ fmt_exp k"
proof -
  have k: "ilog 10 q = k" using assms(1-3) by (intro ilog_unique) simp_all
  have "round_half_even (q * 10 powi (16 - k)) = int n"
    using assms(4) by (intro round_half_even_near) simp
  then have "sci_digits q = (n, k)" using assms(5) k by (simp add: sci_digits_def Let_def)
  then show ?thesis using assms(1) by (simp add: fmt_sci_def Let_def)
qed

lemma fmt_sci_1: "fmt_sci 1 = ''1.0000000000000000e+00''"
  by (subst fmt_sci_eval [where k = 0 and n = "10000000000000000"])
     (simp_all add: str_nat.simps digit_char_def fmt_exp_def)

lemma format_e16_1: "format_e16 (Finite 1) = ''1.0000000000000000e+00''"
  by (simp add: fmt_sci_1)

lemma format_e16_neg_1: "format_e16 (Finite (- 1)) = ''-1.0000000000000000e+00''"
  by (simp add: fmt_sci_1)

lemma file_lines_vector_body: "file_lines (vector_body data) = map format_e16 data"
  unfolding vector_body_def using format_e16_chars by (intro file_lines_terminated) blast

lemma split_on_header:
  "c \<notin> set l \<Longrightarrow> butlast (split_on c (l @ c # rest)) = l # butlast (split_on c rest)"
  by (simp add: split_on_append split_on_nonempty)

lemma file_lines_two_headers:
  "LF \<notin> set a \<Longrightarrow> LF \<notin> set b \<Longrightarrow>
   file_lines (a @ LF # b @ LF # text) = a # b # file_lines text"
  by (simp add: file_lines_def split_on_header)

lemma file_lines_header:
  "LF \<notin> set h \<Longrightarrow> file_lines ((''# '' @ h @ [LF]) @ text) = (''# '' @ h) # file_lines text"
proof -
  assume "LF \<notin> set h"
  then have "LF \<notin> set (''# '' @ h)" by (simp add: LF_def)
  then have "butlast (split_on LF ((''# '' @ h) @ LF # text)) = (''# '' @ h) # butlast (split_on LF text)"
    by (rule split_on_header)
  then show ?thesis by (simp add: file_lines_def)
qed

lemma save_vector_file:
  "read_file (run (save_vector dir data filename header) w) (os_path_join dir filename)
     = Some (header_text header @ vector_body data)"
  by (simp add: save_vector_def andthen_def write_file_def print_def skip_def run_def read_file_def update_conv')

lemma save_matrix_file:
  "read_file (run (save_matrix dir rows filename header) w) (os_path_join dir filename)
     = Some (header_text header @ matrix_body rows)"
  by (simp add: save_matrix_def andthen_def write_file_def print_def skip_def run_def read_file_def update_conv')

lemma save_complex_matrix_file:
  "read_file (run (save_complex_matrix dir rows filename header) w) (os_path_join dir filename)
     = Some (header_text header @ complex_matrix_body rows)"
  by (simp add: save_complex_matrix_def andthen_def write_file_def print_def skip_def run_def read_file_def update_conv')

lemma join_format_chars:
  assumes "c \<in> set (join '' '' (map format_e16 row))"
  shows "c \<noteq> LF \<and> c \<noteq> CHR '',''"
proof -
  have "c = CHR '' '' \<or> (\<exists>v\<in>set row. c \<in> set (format_e16 v))"
    using assms set_join [of "'' ''" "map format_e16 row"] by auto
  then show ?thesis using format_e16_chars by (auto simp: LF_def)
qed

lemma file_lines_matrix_body:
  "file_lines (matrix_body rows) = map (\<lambda>row. join '' '' (map format_e16 row)) rows"
  unfolding matrix_body_def using join_format_chars by (intro file_lines_terminated) blast

lemma matrix_fields:
  assumes "[] \<notin> set rows"
  shows "map (split_on CHR '' '') (file_lines (matrix_body rows)) = map (map format_e16) rows"
proof -
  have "split_on CHR '' '' (join '' '' (map format_e16 row)) = map format_e16 row"
    if "row \<in> set rows" for row
  proof -
    have "row \<noteq> []" using that assms by auto
    then show ?thesis using format_e16_chars by (intro split_on_join) auto
  qed
  then show ?thesis by (simp add: file_lines_matrix_body)
qed

lemma complex_field_chars:
  assumes "c \<in> set (complex_field z)"
  shows "c \<noteq> LF \<and> c \<noteq> CHR '' ''"
  using assms format_e16_chars by (auto simp: complex_field_def LF_def)

lemma split_complex_field:
  "split_on CHR '','' (complex_field z) = [format_e16 (fst z), format_e16 (snd z)]"
proof -
  have a: "CHR '','' \<notin> set (format_e16 (fst z))" "CHR '','' \<notin> set (format_e16 (snd z))"
    using format_e16_chars by blast+
  show ?thesis using a by (simp add: complex_field_def split_on_append split_on_none)
qed

lemma file_lines_complex_matrix_body:
  "file_lines (complex_matrix_body rows) = map (\<lambda>row. join '' '' (map complex_field row)) rows"
proof -
  have "LF \<notin> set (join '' '' (map complex_field row))" for row
  proof
    assume "LF \<in> set (join '' '' (map complex_field row))"
    then have "LF = CHR '' '' \<or> (\<exists>z\<in>set row. LF \<in> set (complex_field z))"
      using set_join [of "'' ''" "map complex_field row"] by auto
    then show False using complex_field_chars by (auto simp: LF_def)
  qed
  then show ?thesis unfolding complex_matrix_body_def by (intro file_lines_terminated) blast
qed

lemma complex_matrix_fields:
  assumes "[] \<notin> set rows"
  shows "map (map (split_on CHR '','') \<circ> split_on CHR '' '') (file_lines (complex_matrix_body rows))
       = map (map (\<lambda>z. [format_e16 (fst z), format_e16 (snd z)])) rows"
proof -
  have "map (split_on CHR '','') (split_on CHR '' '' (join '' '' (map complex_field row)))
          = map (\<lambda>z. [format_e16 (fst z), format_e16 (snd z)]) row"
    if "row \<in> set rows" for row
  proof -
    have "row \<noteq> []" using that assms by auto
    then have "split_on CHR '' '' (join '' '' (map complex_field row)) = map complex_field row"
      using complex_field_chars by (intro split_on_join) auto
    then show ?thesis by (simp add: split_complex_field)
  qed
  then show ?thesis by (simp add: file_lines_complex_matrix_body)
qed

lemma rnd_neg_near:
  assumes "q < 0" "2 powi e \<le> - q" "- q < 2 powi (e + 1)" "- 1022 \<le> e"
    and "\<bar>- q / 2 powi (e - 52) - of_int m\<bar> < 1 / 2" "0 < m"
    and "of_int m * 2 powi (e - 52) < (2::rat) powi 1024"
  shows "rnd q = Finite (- (of_int m * 2 powi (e - 52)))"
proof -
  have "max e (- 1022) = e" using assms(4) by simp
  moreover have "round_half_even (- q / 2 powi (e - 52)) = m"
    using assms(5) by (rule round_half_even_near)
  ultimately show ?thesis
    using assms(6,7) by (simp add: rnd_neg [OF assms(1-3)] Let_def del: power_int_numeral)
qed

lemma fadd_1_2: "fadd (Finite 1) (Finite 2) = Finite (3)"
proof -
  have "rnd (1 + 2) = Finite (of_int 6755399441055744 * 2 powi (1 - 52))"
    by (rule rnd_pos_near) simp_all
  then show ?thesis by (simp add: fadd_def)
qed

lemma fsub_1_2: "fsub (Finite 1) (Finite 2) = Finite (- 1)"
proof -
  have "rnd (1 + - 2) = Finite (- (of_int 4503599627370496 * 2 powi (0 - 52)))"
    by (rule rnd_neg_near) simp_all
  then show ?thesis by (simp add: fsub_def fadd_def)
qed

lemma fadd_3_4: "fadd (Finite 3) (Finite 4) = Finite (7)"
proof -
  have "rnd (3 + 4) = Finite (of_int 7881299347898368 * 2 powi (2 - 52))"
    by (rule rnd_pos_near) simp_all
  then show ?thesis by (simp add: fadd_def)
qed

lemma fsub_3_4: "fsub (Finite 3) (Finite 4) = Finite (- 1)"
proof -
  have "rnd (3 + - 4) = Finite (- (of_int 4503599627370496 * 2 powi (0 - 52)))"
    by (rule rnd_neg_near) simp_all
  then show ?thesis by (simp add: fsub_def fadd_def)
qed

lemma fadd_5_6: "fadd (Finite 5) (Finite 6) = Finite (11)"
proof -
  have "rnd (5 + 6) = Finite (of_int 6192449487634432 * 2 powi (3 - 52))"
    by (rule rnd_pos_near) simp_all
  then show ?thesis by (simp add: fadd_def)
qed

lemma fsub_5_6: "fsub (Finite 5) (Finite 6) = Finite (- 1)"
proof -
  have "rnd (5 + - 6) = Finite (- (of_int 4503599627370496 * 2 powi (0 - 52)))"
    by (rule rnd_neg_near) simp_all
  then show ?thesis by (simp add: fsub_def fadd_def)
qed

lemma fadd_7_8: "fadd (Finite 7) (Finite 8) = Finite (15)"
proof -
  have "rnd (7 + 8) = Finite (of_int 8444249301319680 * 2 powi (3 - 52))"
    by (rule rnd_pos_near) simp_all
  then show ?thesis by (simp add: fadd_def)
qed

lemma fsub_7_8: "fsub (Finite 7) (Finite 8) = Finite (- 1)"
proof -
  have "rnd (7 + - 8) = Finite (- (of_int 4503599627370496 * 2 powi (0 - 52)))"
    by (rule rnd_neg_near) simp_all
  then show ?thesis by (simp add: fsub_def fadd_def)
qed

lemma truediv_3_sqrt2: "truediv (Finite (3)) math_sqrt_2 = Inr (Finite (4776788754394329 / 2251799813685248))"
proof -
  have "rnd (3 / (6369051672525773 / 4503599627370496)) = Finite (of_int 4776788754394329 * 2 powi (1 - 52))"
    by (rule rnd_pos_near) simp_all
  then show ?thesis by (simp add: truediv_def fdiv_def math_sqrt_2_def)
qed

lemma truediv_7_sqrt2: "truediv (Finite (7)) math_sqrt_2 = Inr (Finite (5572920213460051 / 1125899906842624))"
proof -
  have "rnd (7 / (6369051672525773 / 4503599627370496)) = Finite (of_int 5572920213460051 * 2 powi (2 - 52))"
    by (rule rnd_pos_near) simp_all
  then show ?thesis by (simp add: truediv_def fdiv_def math_sqrt_2_def)
qed

lemma truediv_11_sqrt2: "truediv (Finite (11)) math_sqrt_2 = Inr (Finite (8757446049722937 / 1125899906842624))"
proof -
  have "rnd (11 / (6369051672525773 / 4503599627370496)) = Finite (of_int 8757446049722937 * 2 powi (2 - 52))"
    by (rule rnd_pos_near) simp_all
  then show ?thesis by (simp add: truediv_def fdiv_def math_sqrt_2_def)
qed

lemma truediv_15_sqrt2: "truediv (Finite (15)) math_sqrt_2 = Inr (Finite (5970985942992911 / 562949953421312))"
proof -
  have "rnd (15 / (6369051672525773 / 4503599627370496)) = Finite (of_int 5970985942992911 * 2 powi (3 - 52))"
    by (rule rnd_pos_near) simp_all
  then show ?thesis by (simp add: truediv_def fdiv_def math_sqrt_2_def)
qed

lemma truediv_neg_1_sqrt2: "truediv (Finite (- 1)) math_sqrt_2 = Inr (Finite (- 1592262918131443 / 2251799813685248))"
proof -
  have "rnd (- 1 / (6369051672525773 / 4503599627370496)) = Finite (- (of_int 6369051672525772 * 2 powi ((- 1) - 52)))"
    by (rule rnd_neg_near) simp_all
  then show ?thesis by (simp add: truediv_def fdiv_def math_sqrt_2_def)
qed

lemma truediv_1_sqrt2: "truediv (Finite (1)) math_sqrt_2 = Inr (Finite (1592262918131443 / 2251799813685248))"
proof -
  have "rnd (1 / (6369051672525773 / 4503599627370496)) = Finite (of_int 6369051672525772 * 2 powi ((- 1) - 52))"
    by (rule rnd_pos_near) simp_all
  then show ?thesis by (simp add: truediv_def fdiv_def math_sqrt_2_def)
qed

lemma fmul_2_pi: "fmul (Finite 2) math_pi = Finite (884279719003555 / 140737488355328)"
proof -
  have "rnd (2 * (884279719003555 / 281474976710656)) = Finite (of_int 7074237752028440 * 2 powi (2 - 52))"
    by (rule rnd_pos_near) simp_all
  then show ?thesis by (simp add: fmul_def math_pi_def)
qed

lemma sine_arg_0: "sine_arg 0 = Inr (Finite 0)"
  unfolding sine_arg_def fmul_2_pi by (simp add: fmul_def signed_zero_def truediv_def fdiv_def)

lemma sine_arg_1: "sine_arg 1 = Inr (Finite (884279719003555 / 1125899906842624))"
proof -
  have "rnd ((884279719003555 / 140737488355328) * 1) = Finite (of_int 7074237752028440 * 2 powi (2 - 52))"
    by (rule rnd_pos_near) simp_all
  then have p: "fmul (Finite (884279719003555 / 140737488355328)) (Finite 1) = Finite (884279719003555 / 140737488355328)"
    by (simp add: fmul_def)
  have "rnd ((884279719003555 / 140737488355328) / 8) = Finite (of_int 7074237752028440 * 2 powi ((- 1) - 52))"
    by (rule rnd_pos_near) simp_all
  then show ?thesis unfolding sine_arg_def fmul_2_pi of_nat_numeral of_nat_1 p by (simp add: truediv_def fdiv_def)
qed

lemma sine_arg_2: "sine_arg 2 = Inr (Finite (884279719003555 / 562949953421312))"
proof -
  have "rnd ((884279719003555 / 140737488355328) * 2) = Finite (of_int 7074237752028440 * 2 powi (3 - 52))"
    by (rule rnd_pos_near) simp_all
  then have p: "fmul (Finite (884279719003555 / 140737488355328)) (Finite 2) = Finite (884279719003555 / 70368744177664)"
    by (simp add: fmul_def)
  have "rnd ((884279719003555 / 70368744177664) / 8) = Finite (of_int 7074237752028440 * 2 powi (0 - 52))"
    by (rule rnd_pos_near) simp_all
  then show ?thesis unfolding sine_arg_def fmul_2_pi of_nat_numeral of_nat_1 p by (simp add: truediv_def fdiv_def)
qed

lemma sine_arg_3: "sine_arg 3 = Inr (Finite (2652839157010665 / 1125899906842624))"
proof -
  have "rnd ((884279719003555 / 140737488355328) * 3) = Finite (of_int 5305678314021330 * 2 powi (4 - 52))"
    by (rule rnd_pos_near) simp_all
  then have p: "fmul (Finite (884279719003555 / 140737488355328)) (Finite 3) = Finite (2652839157010665 / 140737488355328)"
    by (simp add: fmul_def)
  have "rnd ((2652839157010665 / 140737488355328) / 8) = Finite (of_int 5305678314021330 * 2 powi (1 - 52))"
    by (rule rnd_pos_near) simp_all
  then show ?thesis unfolding sine_arg_def fmul_2_pi of_nat_numeral of_nat_1 p by (simp add: truediv_def fdiv_def)
qed

lemma sine_arg_4: "sine_arg 4 = Inr (Finite (884279719003555 / 281474976710656))"
proof -
  have "rnd ((884279719003555 / 140737488355328) * 4) = Finite (of_int 7074237752028440 * 2 powi (4 - 52))"
    by (rule rnd_pos_near) simp_all
  then have p: "fmul (Finite (884279719003555 / 140737488355328)) (Finite 4) = Finite (884279719003555 / 35184372088832)"
    by (simp add: fmul_def)
  have "rnd ((884279719003555 / 35184372088832) / 8) = Finite (of_int 7074237752028440 * 2 powi (1 - 52))"
    by (rule rnd_pos_near) simp_all
  then show ?thesis unfolding sine_arg_def fmul_2_pi of_nat_numeral of_nat_1 p by (simp add: truediv_def fdiv_def)
qed

lemma sine_arg_5: "sine_arg 5 = Inr (Finite (4421398595017775 / 1125899906842624))"
proof -
  have "rnd ((884279719003555 / 140737488355328) * 5) = Finite (of_int 8842797190035550 * 2 powi (4 - 52))"
    by (rule rnd_pos_near) simp_all
  then have p: "fmul (Finite (884279719003555 / 140737488355328)) (Finite 5) = Finite (4421398595017775 / 140737488355328)"
    by (simp add: fmul_def)
  have "rnd ((4421398595017775 / 140737488355328) / 8) = Finite (of_int 8842797190035550 * 2 powi (1 - 52))"
    by (rule rnd_pos_near) simp_all
  then show ?thesis unfolding sine_arg_def fmul_2_pi of_nat_numeral of_nat_1 p by (simp add: truediv_def fdiv_def)
qed

lemma sine_arg_6: "sine_arg 6 = Inr (Finite (2652839157010665 / 562949953421312))"
proof -
  have "rnd ((884279719003555 / 140737488355328) * 6) = Finite (of_int 5305678314021330 * 2 powi (5 - 52))"
    by (rule rnd_pos_near) simp_all
  then have p: "fmul (Finite (884279719003555 / 140737488355328)) (Finite 6) = Finite (2652839157010665 / 70368744177664)"
    by (simp add: fmul_def)
  have "rnd ((2652839157010665 / 70368744177664) / 8) = Finite (of_int 5305678314021330 * 2 powi (2 - 52))"
    by (rule rnd_pos_near) simp_all
  then show ?thesis unfolding sine_arg_def fmul_2_pi of_nat_numeral of_nat_1 p by (simp add: truediv_def fdiv_def)
qed

lemma sine_arg_7: "sine_arg 7 = Inr (Finite (6189958033024885 / 1125899906842624))"
proof -
  have "rnd ((884279719003555 / 140737488355328) * 7) = Finite (of_int 6189958033024885 * 2 powi (5 - 52))"
    by (rule rnd_pos_near) simp_all
  then have p: "fmul (Finite (884279719003555 / 140737488355328)) (Finite 7) = Finite (6189958033024885 / 140737488355328)"
    by (simp add: fmul_def)
  have "rnd ((6189958033024885 / 140737488355328) / 8) = Finite (of_int 6189958033024885 * 2 powi (2 - 52))"
    by (rule rnd_pos_near) simp_all
  then show ?thesis unfolding sine_arg_def fmul_2_pi of_nat_numeral of_nat_1 p by (simp add: truediv_def fdiv_def)
qed

lemma range_step_0_8_2: "range_step 0 8 2 = [0, 2, 4, 6]"
  by (simp add: range_step_def upt_rec)

lemma haar_manual_value:
  "haar_manual =
     Inr ([Finite (4776788754394329 / 2251799813685248), Finite (5572920213460051 / 1125899906842624),
           Finite (8757446049722937 / 1125899906842624), Finite (5970985942992911 / 562949953421312)],
          [Finite (- 1592262918131443 / 2251799813685248), Finite (- 1592262918131443 / 2251799813685248),
           Finite (- 1592262918131443 / 2251799813685248), Finite (- 1592262918131443 / 2251799813685248)])"
proof -
  have len: "length haar_signal = 8" by (simp add: haar_signal_def)
  show ?thesis
    unfolding haar_manual_def len range_step_0_8_2
    by (simp add: haar_signal_def sbind_def getitem_def
      fadd_1_2 fadd_3_4 fadd_5_6 fadd_7_8 fsub_1_2 fsub_3_4 fsub_5_6 fsub_7_8
      truediv_3_sqrt2 truediv_7_sqrt2 truediv_11_sqrt2 truediv_15_sqrt2 truediv_neg_1_sqrt2)
qed

lemma fmt_sci_a3: "fmt_sci (4776788754394329 / 2251799813685248) = ''2.1213203435596424e+00''"
  by (subst fmt_sci_eval [where k = 0 and n = 21213203435596424])
     (simp_all add: str_nat.simps digit_char_def fmt_exp_def)

lemma fmt_sci_a7: "fmt_sci (5572920213460051 / 1125899906842624) = ''4.9497474683058327e+00''"
  by (subst fmt_sci_eval [where k = 0 and n = 49497474683058327])
     (simp_all add: str_nat.simps digit_char_def fmt_exp_def)

lemma fmt_sci_a11: "fmt_sci (8757446049722937 / 1125899906842624) = ''7.7781745930520225e+00''"
  by (subst fmt_sci_eval [where k = 0 and n = 77781745930520225])
     (simp_all add: str_nat.simps digit_char_def fmt_exp_def)

lemma fmt_sci_a15: "fmt_sci (5970985942992911 / 562949953421312) = ''1.0606601717798211e+01''"
  by (subst fmt_sci_eval [where k = 1 and n = 10606601717798211])
     (simp_all add: str_nat.simps digit_char_def fmt_exp_def)

lemma fmt_sci_d1: "fmt_sci (1592262918131443 / 2251799813685248) = ''7.0710678118654746e-01''"
  by (subst fmt_sci_eval [where k = "- 1" and n = 70710678118654746])
     (simp_all add: str_nat.simps digit_char_def fmt_exp_def)

lemma fmt_sci_8: "fmt_sci (8) = ''8.0000000000000000e+00''"
  by (subst fmt_sci_eval [where k = 0 and n = 80000000000000000])
     (simp_all add: str_nat.simps digit_char_def fmt_exp_def)

lemma sqrt2_lower: "14142135623730950488 / 10 ^ 19 < sqrt 2"
  by (rule real_less_rsqrt) (simp add: power2_eq_square)

lemma sqrt2_upper: "sqrt 2 < 14142135623730950489 / 10 ^ 19"
  by (rule real_less_lsqrt) (simp_all add: power2_eq_square)

lemma near_div_sqrt2:
  fixes a c e :: real
  assumes "0 < c" "(a - e) * (14142135623730950489 / 10 ^ 19) \<le> c"
    and "c \<le> (a + e) * (14142135623730950488 / 10 ^ 19)"
  shows "\<bar>a - c / sqrt 2\<bar> < e"
proof -
  define L :: real where "L = 14142135623730950488 / 10 ^ 19"
  define U :: real where "U = 14142135623730950489 / 10 ^ 19"
  have L: "0 < L" "L < sqrt 2" using sqrt2_lower by (simp_all add: L_def)
  have U: "sqrt 2 < U" using sqrt2_upper by (simp add: U_def)
  have s: "0 < sqrt 2" by simp
  have "c / sqrt 2 < c / L" using assms(1) L by (simp add: divide_strict_left_mono)
  also have "c / L \<le> a + e" using assms(3) L(1) by (simp add: L_def divide_le_eq)
  finally have hi: "c / sqrt 2 < a + e" .
  have "a - e \<le> c / U" using assms(2) U s by (simp add: U_def le_divide_eq)
  also have "c / U < c / sqrt 2"
  proof (rule divide_strict_left_mono)
    show "sqrt 2 < U" by (rule U)
    show "0 < c" by (rule assms(1))
    have "0 < U" using U s by linarith
    then show "0 < U * sqrt 2" using s by (rule mult_pos_pos)
  qed
  finally have lo: "a - e < c / sqrt 2" .
  show ?thesis using lo hi by (simp add: abs_less_iff)
qed

lemma math_sqrt_2_nearest: "\<bar>of_rat (val math_sqrt_2) - sqrt 2\<bar> < 1 / 2 ^ 53"
  using sqrt2_lower sqrt2_upper by (simp add: math_sqrt_2_def of_rat_divide abs_less_iff)

lemma near_a3: "\<bar>of_rat (4776788754394329 / 2251799813685248) - 3 / sqrt 2\<bar> < 2 / 10 ^ 15"
proof -
  have "\<bar>(4776788754394329 / 2251799813685248 :: real) - 3 / sqrt 2\<bar> < 2 / 10 ^ 15"
    by (rule near_div_sqrt2) simp_all
  then show ?thesis by (simp add: of_rat_divide)
qed

lemma near_a7: "\<bar>of_rat (5572920213460051 / 1125899906842624) - 7 / sqrt 2\<bar> < 2 / 10 ^ 15"
proof -
  have "\<bar>(5572920213460051 / 1125899906842624 :: real) - 7 / sqrt 2\<bar> < 2 / 10 ^ 15"
    by (rule near_div_sqrt2) simp_all
  then show ?thesis by (simp add: of_rat_divide)
qed

lemma near_a11: "\<bar>of_rat (8757446049722937 / 1125899906842624) - 11 / sqrt 2\<bar> < 2 / 10 ^ 15"
proof -
  have "\<bar>(8757446049722937 / 1125899906842624 :: real) - 11 / sqrt 2\<bar> < 2 / 10 ^ 15"
    by (rule near_div_sqrt2) simp_all
  then show ?thesis by (simp add: of_rat_divide)
qed

lemma near_a15: "\<bar>of_rat (5970985942992911 / 562949953421312) - 15 / sqrt 2\<bar> < 2 / 10 ^ 15"
proof -
  have "\<bar>(5970985942992911 / 562949953421312 :: real) - 15 / sqrt 2\<bar> < 2 / 10 ^ 15"
    by (rule near_div_sqrt2) simp_all
  then show ?thesis by (simp add: of_rat_divide)
qed

lemma near_d1: "\<bar>of_rat (1592262918131443 / 2251799813685248) - 1 / sqrt 2\<bar> < 2 / 10 ^ 15"
proof -
  have "\<bar>(1592262918131443 / 2251799813685248 :: real) - 1 / sqrt 2\<bar> < 2 / 10 ^ 15"
    by (rule near_div_sqrt2) simp_all
  then show ?thesis by (simp add: of_rat_divide)
qed

lemma near_neg_d1: "\<bar>of_rat (- 1592262918131443 / 2251799813685248) - (- 1) / sqrt 2\<bar> < 2 / 10 ^ 15"
proof -
  have "\<bar>of_rat (- 1592262918131443 / 2251799813685248) - (- 1) / sqrt 2\<bar>
      = \<bar>of_rat (1592262918131443 / 2251799813685248) - 1 / sqrt 2\<bar>"
    by (simp add: of_rat_divide of_rat_minus abs_if)
  then show ?thesis using near_d1 by simp
qed

section \<open>Statements: what they write and how they end\<close>

lemma writes_skip [simp]: "writes skip = []" "snd skip = None"
  by (simp_all add: writes_def skip_def)

lemma writes_raise [simp]: "writes (raise e) = []" "snd (raise e) = Some e"
  by (simp_all add: writes_def raise_def)

lemma writes_print [simp]: "writes (print l) = []" "snd (print l) = None"
  by (simp_all add: writes_def print_def)

lemma writes_print_file_count [simp]:
  "writes (print_file_count d) = []" "snd (print_file_count d) = None"
  by (simp_all add: writes_def print_file_count_def)

lemma writes_write_file [simp]:
  "writes (write_file p t) = [(p, t)]" "snd (write_file p t) = None"
  by (simp_all add: writes_def write_file_def)

lemma writes_andthen [simp]:
  "writes (andthen s t) = (if snd s = None then writes s @ writes t else writes s)"
  "snd (andthen s t) = (if snd s = None then snd t else snd s)"
  by (auto simp: writes_def andthen_def split: option.splits)

lemma writes_eval [simp]:
  "writes (eval r k) = (case r of Inl e \<Rightarrow> [] | Inr v \<Rightarrow> writes (k v))"
  "snd (eval r k) = (case r of Inl e \<Rightarrow> Some e | Inr v \<Rightarrow> snd (k v))"
  by (simp_all add: eval_def split: sum.splits)

lemma writes_try_except_pass [simp]:
  "writes (try_except_pass s) = writes s" "snd (try_except_pass s) = None"
  by (simp_all add: writes_def try_except_pass_def)

lemma writes_save_vector [simp]:
  "writes (save_vector dir data filename header)
     = [(os_path_join dir filename, header_text header @ vector_body data)]"
  "snd (save_vector dir data filename header) = None"
  by (simp_all add: save_vector_def)

lemma writes_save_matrix [simp]:
  "writes (save_matrix dir data filename header)
     = [(os_path_join dir filename, header_text header @ matrix_body data)]"
  "snd (save_matrix dir data filename header) = None"
  by (simp_all add: save_matrix_def)

lemma writes_save_complex_matrix [simp]:
  "writes (save_complex_matrix dir data filename header)
     = [(os_path_join dir filename, header_text header @ complex_matrix_body data)]"
  "snd (save_complex_matrix dir data filename header) = None"
  by (simp_all add: save_complex_matrix_def)

lemma written_andthen:
  "written (andthen s t) = (if snd s = None then written s @ written t else written s)"
  by (simp add: written_def)

lemma files_foldl_perform:
  "map_of (files (foldl (\<lambda>w a. perform a w) w as))
     = map_of (files w) ++ map_of (rev (concat (map (\<lambda>a. case a of Write p t \<Rightarrow> [(p, t)] | _ \<Rightarrow> []) as)))"
proof (induction as arbitrary: w)
  case Nil
  then show ?case by simp
next
  case (Cons a as)
  show ?case
  proof (cases a)
    case (Write p t)
    then show ?thesis
      by (simp add: Cons.IH update_conv' map_add_upd_left fun_eq_iff map_add_def split: option.splits)
  next
    case (Print l)
    then show ?thesis by (simp add: Cons.IH)
  next
    case (PrintFileCount d)
    then show ?thesis by (simp add: Cons.IH)
  qed
qed

lemma files_run: "map_of (files (run s w)) = map_of (files w) ++ map_of (rev (writes s))"
  by (simp add: run_def writes_def files_foldl_perform)

lemma read_file_run:
  "read_file (run s w) p
     = (case map_of (rev (writes s)) p of Some t \<Rightarrow> Some t | None \<Rightarrow> read_file w p)"
  by (simp add: read_file_def files_run map_add_def split: option.splits)



section \<open>The basic generator: what it writes\<close>

lemma upt_0_8: "[0..<8] = [0, 1, 2, 3, 4, 5, 6, 7]"
  by (simp add: upt_rec)

lemma sine_signal_value:
  "sine_signal pf = Inr (map (\<lambda>q. libm_sin pf (Finite q)) [0, 884279719003555 / 1125899906842624, 884279719003555 / 562949953421312, 2652839157010665 / 1125899906842624, 884279719003555 / 281474976710656, 4421398595017775 / 1125899906842624, 2652839157010665 / 562949953421312, 6189958033024885 / 1125899906842624])"
  unfolding sine_signal_def upt_0_8
  by (simp add: sbind_def sine_arg_0 sine_arg_1 [unfolded One_nat_def] sine_arg_2 sine_arg_3 sine_arg_4 sine_arg_5
      sine_arg_6 sine_arg_7 math_sin_def)

lemma haar_filter_values:
  "haar_filter [1, 1] = Inr [Finite (1592262918131443 / 2251799813685248), Finite (1592262918131443 / 2251799813685248)]"
  "haar_filter [1, - 1] = Inr [Finite (1592262918131443 / 2251799813685248), Finite (- 1592262918131443 / 2251799813685248)]"
  "haar_filter [- 1, 1] = Inr [Finite (- 1592262918131443 / 2251799813685248), Finite (1592262918131443 / 2251799813685248)]"
  using truediv_1_sqrt2 truediv_neg_1_sqrt2 by (simp_all add: haar_filter_def sbind_def)

lemma basic_path [simp]:
  "take 1 f \<noteq> ''/'' \<Longrightarrow> os_path_join basic_output_dir f = ''../src/test/resources/testdata/'' @ f"
  by (simp add: os_path_join_def basic_output_dir_def)

lemma writes_generate_haar_reference:
  "writes generate_haar_reference = [(''../src/test/resources/testdata/haar_simple_input.txt'',
        header_text (Some ''Simple test signal [1,2,3,4,5,6,7,8]'') @ vector_body (haar_signal)),
       (''../src/test/resources/testdata/haar_level1_approx_manual.txt'',
        header_text (Some ''Haar level 1 approximation (manual calc)'') @ vector_body ([Finite (4776788754394329 / 2251799813685248), Finite (5572920213460051 / 1125899906842624), Finite (8757446049722937 / 1125899906842624), Finite (5970985942992911 / 562949953421312)])),
       (''../src/test/resources/testdata/haar_level1_detail_manual.txt'',
        header_text (Some ''Haar level 1 detail (manual calc)'') @ vector_body ([Finite (- 1592262918131443 / 2251799813685248), Finite (- 1592262918131443 / 2251799813685248), Finite (- 1592262918131443 / 2251799813685248), Finite (- 1592262918131443 / 2251799813685248)])),
       (''../src/test/resources/testdata/haar_constant_input.txt'',
        header_text (Some ''Constant signal [5,5,5,5,5,5,5,5]'') @ vector_body (replicate 8 (Finite 5))),
       (''../src/test/resources/testdata/haar_linear_input.txt'',
        header_text (Some ''Linear signal [0,1,2,3,4,5,6,7]'') @ vector_body (map (\<lambda>i. Finite (of_nat i)) [0..<8]))]"
  "snd generate_haar_reference = None"
  by (simp_all add: generate_haar_reference_def haar_manual_value)

lemma writes_basic_generate_fft_reference:
  "writes (basic_generate_fft_reference pf) = [(''../src/test/resources/testdata/fft_dc_input.txt'',
        header_text (Some ''DC signal (all ones)'') @ vector_body (dc_signal)),
       (''../src/test/resources/testdata/fft_dc_output_real.txt'',
        header_text (Some ''FFT of DC signal (real part)'') @ vector_body (dc_fft_real)),
       (''../src/test/resources/testdata/fft_dc_output_imag.txt'',
        header_text (Some ''FFT of DC signal (imaginary part)'') @ vector_body (dc_fft_imag)),
       (''../src/test/resources/testdata/fft_sine_simple_input.txt'',
        header_text (Some ''One cycle sine wave over 8 points'') @ vector_body (map (\<lambda>q. libm_sin pf (Finite q)) [0, 884279719003555 / 1125899906842624, 884279719003555 / 562949953421312, 2652839157010665 / 1125899906842624, 884279719003555 / 281474976710656, 4421398595017775 / 1125899906842624, 2652839157010665 / 562949953421312, 6189958033024885 / 1125899906842624])),
       (''../src/test/resources/testdata/fft_impulse_input.txt'',
        header_text (Some ''Impulse signal'') @ vector_body (impulse)),
       (''../src/test/resources/testdata/fft_impulse_output_real.txt'',
        header_text (Some ''FFT of impulse (real)'') @ vector_body (impulse_fft_real)),
       (''../src/test/resources/testdata/fft_impulse_output_imag.txt'',
        header_text (Some ''FFT of impulse (imag)'') @ vector_body (impulse_fft_imag))]"
  "snd (basic_generate_fft_reference pf) = None"
  by (simp_all add: basic_generate_fft_reference_def sine_signal_value)

lemma writes_generate_wavelet_filters:
  "writes generate_wavelet_filters = [(''../src/test/resources/testdata/filter_haar_dec_lo.txt'',
        header_text (Some ''Haar decomposition low-pass'') @ vector_body ([Finite (1592262918131443 / 2251799813685248), Finite (1592262918131443 / 2251799813685248)])),
       (''../src/test/resources/testdata/filter_haar_dec_hi.txt'',
        header_text (Some ''Haar decomposition high-pass'') @ vector_body ([Finite (1592262918131443 / 2251799813685248), Finite (- 1592262918131443 / 2251799813685248)])),
       (''../src/test/resources/testdata/filter_haar_rec_lo.txt'',
        header_text (Some ''Haar reconstruction low-pass'') @ vector_body ([Finite (1592262918131443 / 2251799813685248), Finite (1592262918131443 / 2251799813685248)])),
       (''../src/test/resources/testdata/filter_haar_rec_hi.txt'',
        header_text (Some ''Haar reconstruction high-pass'') @ vector_body ([Finite (- 1592262918131443 / 2251799813685248), Finite (1592262918131443 / 2251799813685248)])),
       (''../src/test/resources/testdata/filter_db2_dec_lo.txt'',
        header_text (Some ''Daubechies 2 = Haar'') @ vector_body ([Finite (1592262918131443 / 2251799813685248), Finite (1592262918131443 / 2251799813685248)])),
       (''../src/test/resources/testdata/filter_db4_dec_lo.txt'',
        header_text (Some ''Daubechies 4 decomposition low-pass'') @ vector_body (db4_dec_lo)),
       (''../src/test/resources/testdata/filter_db4_dec_hi.txt'',
        header_text (Some ''Daubechies 4 decomposition high-pass'') @ vector_body (db4_dec_hi))]"
  "snd generate_wavelet_filters = None"
  by (simp_all add: generate_wavelet_filters_def haar_filter_values)

lemma writes_generate_test_parameters:
  "writes generate_test_parameters = [(''../src/test/resources/testdata/cwt_test_params.txt'', cwt_test_params)]"
  "snd generate_test_parameters = None"
  by (simp_all add: generate_test_parameters_def)

lemma basic_main_ends: "snd (basic_main pf) = None"
  by (simp add: basic_main_def writes_generate_haar_reference writes_basic_generate_fft_reference
      writes_generate_wavelet_filters writes_generate_test_parameters)

lemma writes_basic_main:
  "writes (basic_main pf) =
     writes generate_haar_reference @ writes (basic_generate_fft_reference pf)
     @ writes generate_wavelet_filters @ writes generate_test_parameters"
  by (simp add: basic_main_def writes_generate_haar_reference(2)
      writes_basic_generate_fft_reference(2) writes_generate_wavelet_filters(2)
      writes_generate_test_parameters(2))

lemma header_lines:
  "h \<noteq> [] \<Longrightarrow> LF \<notin> set h \<Longrightarrow>
   file_lines (header_text (Some h) @ vector_body data) = (''# '' @ h) # map format_e16 data"
  using file_lines_header [of h "vector_body data"] by (simp add: header_text_def file_lines_vector_body)

lemma basic_script_writes:
  "writes (basic_script pf) =
     writes generate_haar_reference @ writes (basic_generate_fft_reference pf)
     @ writes generate_wavelet_filters @ writes generate_test_parameters"
  by (simp add: basic_script_def writes_basic_main)

lemmas basic_writes =
  basic_script_writes writes_generate_haar_reference(1) writes_basic_generate_fft_reference(1)
  writes_generate_wavelet_filters(1) writes_generate_test_parameters(1)

lemma fst_andthen:
  "fst (andthen s t) = (if snd s = None then fst s @ fst t else fst s)"
  by (auto simp: andthen_def split: option.splits)

lemma run_stdout_nil: "fst s = [] \<Longrightarrow> run s w = w"
  by (simp add: run_def)

section \<open>The edge cases\<close>

lemma full_path [simp]:
  "take 1 f \<noteq> ''/'' \<Longrightarrow> os_path_join full_output_dir f = ''../src/test/resources/testdata/'' @ f"
  by (simp add: os_path_join_def full_output_dir_def)

lemma edge_path_eq: "edge_path name role
    = ''../src/test/resources/testdata/edge_case_'' @ name @ ''_'' @ role @ ''.txt''"
  by (simp add: edge_path_def)

lemma for_each_Cons:
  "writes (for_each f (x # xs)) = (if snd (f x) = None then writes (f x) @ writes (for_each f xs) else writes (f x))"
  "snd (for_each f (x # xs)) = (if snd (f x) = None then snd (for_each f xs) else snd (f x))"
  "writes (for_each f []) = []" "snd (for_each f []) = None"
  by (simp_all add: for_each_def)

lemma for_each_completes:
  "snd (for_each f xs) = None \<Longrightarrow>
   writes (for_each f xs) = concat (map (\<lambda>x. writes (f x)) xs) \<and> (\<forall>x\<in>set xs. snd (f x) = None)"
  by (induction xs) (auto simp: for_each_Cons split: if_splits)

lemma for_each_ends:
  "(\<forall>x\<in>set xs. snd (f x) = None) \<Longrightarrow> snd (for_each f xs) = None"
  by (induction xs) (auto simp: for_each_Cons)

lemma for_each_raises:
  "snd (for_each f xs) = Some e \<Longrightarrow> \<exists>x\<in>set xs. snd (f x) = Some e"
  by (induction xs) (auto simp: for_each_Cons split: if_splits)

lemma written_for_each_subset:
  "set (written (for_each f xs)) \<subseteq> (\<Union>x\<in>set xs. set (written (f x)))"
  by (induction xs) (auto simp: for_each_Cons written_def split: if_splits)

lemma edge_case_ends:
  "snd (edge_case l item)
     = (if snd item = [] then None
        else case fft_of_real l (snd item) of Inl e \<Rightarrow> Some e | Inr F \<Rightarrow> None)"
  by (simp add: edge_case_def Let_def split: sum.splits)

lemma edge_case_written:
  "written (edge_case l item)
     = (if snd item = [] then []
        else edge_path (fst item) ''input'' #
          (case fft_of_real l (snd item) of Inl e \<Rightarrow> []
           | Inr F \<Rightarrow> [edge_path (fst item) ''fft_real'', edge_path (fst item) ''fft_imag'']
               @ (if 1 < length (snd item) \<and> \<not> isl (pywt_dwt l (snd item) ''haar'')
                  then [edge_path (fst item) ''dwt_approx'', edge_path (fst item) ''dwt_detail'']
                  else [])))"
  by (simp add: edge_case_def Let_def written_def edge_path_def os_path_join_def full_output_dir_def
      split: sum.splits)

lemma edge_case_written_spec:
  "snd (edge_case l item) = None \<Longrightarrow> written (edge_case l item) = spec_edge_case_files l item"
  by (auto simp: edge_case_written edge_case_ends spec_edge_case_files_def Let_def
      split: sum.splits if_splits)

lemma special_cases_ends:
  "snd (generate_special_cases l) = snd (for_each (edge_case l) edge_signals)"
  "writes (generate_special_cases l) = writes (for_each (edge_case l) edge_signals)"
  by (simp_all add: generate_special_cases_def)

lemma special_cases_written:
  assumes "snd (generate_special_cases l) = None"
  shows "written (generate_special_cases l) = concat (map (spec_edge_case_files l) edge_signals)"
proof -
  have c: "snd (for_each (edge_case l) edge_signals) = None"
    using assms by (simp add: special_cases_ends)
  note fc = for_each_completes [OF c]
  have "written (generate_special_cases l)
      = concat (map (\<lambda>x. written (edge_case l x)) edge_signals)"
    using fc by (simp add: written_def special_cases_ends map_concat comp_def)
  also have "\<dots> = concat (map (spec_edge_case_files l) edge_signals)"
    using fc edge_case_written_spec by (intro arg_cong [where f = concat] map_cong) auto
  finally show ?thesis .
qed

lemma str_nat_length_two: "n < 100 \<Longrightarrow> length (str_nat n) \<le> 2"
proof (cases "n < 10")
  case True
  then show ?thesis by (subst str_nat.simps) simp
next
  case False
  assume "n < 100"
  then have "length (str_nat n) = Suc 1" using False by (intro str_nat_length) simp_all
  then show ?thesis by simp
qed

lemma fmt_exp_length: "\<bar>k\<bar> < 100 \<Longrightarrow> length (fmt_exp k) = 3"
proof -
  assume "\<bar>k\<bar> < 100"
  then have "nat \<bar>k\<bar> < 100" by simp
  then have a: "length (str_nat (nat \<bar>k\<bar>)) \<le> 2" by (rule str_nat_length_two)
  have b: "1 \<le> length (str_nat (nat \<bar>k\<bar>))" by (rule str_nat_nonempty)
  show ?thesis using a b by (auto simp: fmt_exp_def Let_def)
qed

lemma sci_digits_exponent:
  assumes "1 / 10 ^ 99 \<le> q" "q < 10 ^ 99"
  shows "\<bar>snd (sci_digits q)\<bar> < 100"
proof -
  have q: "0 < q" using assms(1) by (rule less_le_trans [rotated]) simp
  define k where "k = ilog 10 q"
  have kb: "10 powi k \<le> q" "q < 10 powi (k + 1)"
    using ilog_bounds [OF q, of 10] by (simp_all add: k_def)
  have lo: "- 99 \<le> k"
  proof (rule ccontr)
    assume "\<not> - 99 \<le> k"
    then have "k + 1 \<le> - 99" by simp
    then have "(10::rat) powi (k + 1) \<le> 10 powi (- 99)" by (intro power_int_increasing) simp_all
    then have "q < 10 powi (- 99)" using kb(2) by simp
    then show False using assms(1) by (simp add: power_int_minus_divide)
  qed
  have hi: "k \<le> 98"
  proof (rule ccontr)
    assume "\<not> k \<le> 98"
    then have "99 \<le> k" by simp
    then have "(10::rat) powi 99 \<le> 10 powi k" by (intro power_int_increasing) simp_all
    then have "10 powi 99 \<le> q" using kb(1) by simp
    then show False using assms(2) by simp
  qed
  have "snd (sci_digits q) = k \<or> snd (sci_digits q) = k + 1"
    by (simp add: sci_digits_def Let_def k_def)
  then show ?thesis using lo hi by auto
qed

lemma fmt_sci_parts:
  assumes "0 < q"
  shows "\<exists>c r. fmt_sci q = c # CHR ''.'' # r @ CHR ''e'' # fmt_exp (snd (sci_digits q))
           \<and> is_digit c \<and> length r = 16 \<and> list_all is_digit r"
proof -
  define s where "s = str_nat (fst (sci_digits q))"
  have "length s = Suc 16"
    unfolding s_def using sci_digits_range [OF assms] by (intro str_nat_length) simp_all
  then obtain c r where s: "s = c # r" and r: "length r = 16" by (cases s) simp_all
  have "list_all is_digit s" unfolding s_def by (rule str_nat_digits)
  then have d: "is_digit c" "list_all is_digit r" using s by simp_all
  have "fmt_sci q = c # CHR ''.'' # r @ CHR ''e'' # fmt_exp (snd (sci_digits q))"
    using assms s by (simp add: fmt_sci_def Let_def s_def [symmetric])
  then show ?thesis using d r by blast
qed

lemma fmt_sci_pattern:
  assumes "q = 0 \<or> (1 / 10 ^ 99 \<le> q \<and> q < 10 ^ 99)"
  shows "spec_pattern (fmt_sci q)"
proof (cases "q = 0")
  case True
  then show ?thesis
    by (simp add: fmt_sci_def spec_pattern_def unsigned_e16_def mantissa_e16_def exponent_e_def
        is_digit_def)
next
  case False
  then have r: "1 / 10 ^ 99 \<le> q" "q < 10 ^ 99" using assms by simp_all
  have q: "0 < q" using r(1) by (rule less_le_trans [rotated]) simp
  obtain c rs where f: "fmt_sci q = c # CHR ''.'' # rs @ CHR ''e'' # fmt_exp (snd (sci_digits q))"
    and c: "is_digit c" and rs: "length rs = 16" "list_all is_digit rs"
    using fmt_sci_parts [OF q] by blast
  have l: "length (fmt_exp (snd (sci_digits q))) = 3"
    using sci_digits_exponent [OF r] by (rule fmt_exp_length)
  have "unsigned_e16 (fmt_sci q)"
    unfolding f using c rs fmt_exp_shape by (rule unsigned_e16_shape(1))
  moreover have "length (fmt_sci q) = 22" unfolding f using rs(1) l by simp
  ultimately show ?thesis by (simp add: spec_pattern_def)
qed

lemma format_e16_pattern:
  assumes "is_finite x" "val x = 0 \<or> (1 / 10 ^ 99 \<le> \<bar>val x\<bar> \<and> \<bar>val x\<bar> < 10 ^ 99)"
  shows "spec_pattern (if sign_bit x then drop 1 (format_e16 x) else format_e16 x)"
proof -
  have "(if sign_bit x then drop 1 (format_e16 x) else format_e16 x) = fmt_sci \<bar>val x\<bar>"
    using assms(1) by (cases x) auto
  moreover have "spec_pattern (fmt_sci \<bar>val x\<bar>)" using assms(2) by (intro fmt_sci_pattern) auto
  ultimately show ?thesis by simp
qed

lemma special_written_cases:
  assumes "p \<in> set (written (generate_special_cases l))"
  shows "\<exists>item\<in>set edge_signals. snd item \<noteq> [] \<and>
           (p = edge_path (fst item) ''input'' \<or> p = edge_path (fst item) ''fft_real''
            \<or> p = edge_path (fst item) ''fft_imag''
            \<or> (1 < length (snd item) \<and> \<not> isl (pywt_dwt l (snd item) ''haar'')
                \<and> (p = edge_path (fst item) ''dwt_approx'' \<or> p = edge_path (fst item) ''dwt_detail'')))"
proof -
  have "p \<in> set (written (for_each (edge_case l) edge_signals))"
    using assms by (simp add: written_def special_cases_ends)
  then obtain item where i: "item \<in> set edge_signals" and p: "p \<in> set (written (edge_case l item))"
    using written_for_each_subset [of "edge_case l" edge_signals] by auto
  show ?thesis
    using p by (intro bexI [OF _ i]) (auto simp: edge_case_written split: if_splits sum.splits)
qed

lemma edge_names:
  "set edge_signals =
     {(''empty'', []), (''single'', [Finite 42]), (''power_of_2'', np_arange 0 16),
      (''non_power_of_2'', np_arange 0 13), (''zeros'', replicate 8 (Finite 0)),
      (''ones'', replicate 8 (Finite 1)), (''impulse'', map Finite [0, 0, 0, 1, 0, 0, 0, 0])}"
  by (simp add: edge_signals_def)

lemma edge_lengths:
  "length (np_arange 0 16) = 16" "length (np_arange 0 13) = 13"
  by (simp_all add: np_arange_def)



lemma spec_files_in_written:
  assumes "snd (generate_special_cases l) = None" "item \<in> set edge_signals"
  shows "set (spec_edge_case_files l item) \<subseteq> set (written (generate_special_cases l))"
  using assms by (auto simp: special_cases_written)

lemma edge_case_dwt_fails:
  assumes "1 < length (snd item)" "pywt_dwt l (snd item) ''haar'' = Inl e"
    and "fft_of_real l (snd item) = Inr F"
  shows "edge_case l item =
     ([Write (edge_path (fst item) ''input'')
         (header_text (Some (''Edge case: '' @ fst item)) @ vector_body (snd item)),
       Print (''Generated: edge_case_'' @ fst item @ ''_input.txt''),
       Write (edge_path (fst item) ''fft_real'')
         (header_text (Some (''FFT real part of '' @ fst item)) @ vector_body (map fst F)),
       Print (''Generated: edge_case_'' @ fst item @ ''_fft_real.txt''),
       Write (edge_path (fst item) ''fft_imag'')
         (header_text (Some (''FFT imag part of '' @ fst item)) @ vector_body (map snd F)),
       Print (''Generated: edge_case_'' @ fst item @ ''_fft_imag.txt'')], None)"
proof -
  have n: "snd item \<noteq> []" using assms(1) by auto
  show ?thesis
    using assms n
    by (simp add: edge_case_def Let_def save_vector_def andthen_def eval_def write_file_def
        print_def skip_def raise_def try_except_pass_def edge_path_def)
qed

lemma special_cases_exception:
  assumes "snd (generate_special_cases l) = Some x"
  shows "\<exists>it\<in>set edge_signals. fft_of_real l (snd it) = Inl x"
proof -
  have "snd (for_each (edge_case l) edge_signals) = Some x"
    using assms by (simp add: special_cases_ends)
  then obtain it where i: "it \<in> set edge_signals" and s: "snd (edge_case l it) = Some x"
    using for_each_raises by blast
  have "fft_of_real l (snd it) = Inl x"
    using s by (auto simp: edge_case_ends split: if_splits sum.splits)
  then show ?thesis using i by blast
qed

lemma special_cases_complete:
  assumes "\<forall>it\<in>set edge_signals. snd it \<noteq> [] \<longrightarrow> \<not> isl (fft_of_real l (snd it))"
  shows "snd (generate_special_cases l) = None"
proof -
  have "snd (edge_case l it) = None" if "it \<in> set edge_signals" for it
    using assms that by (cases "fft_of_real l (snd it)") (auto simp: edge_case_ends)
  then show ?thesis by (simp add: special_cases_ends for_each_ends)
qed

lemma dwt_files_absent:
  assumes "item \<in> set edge_signals" "isl (pywt_dwt l (snd item) ''haar'')"
  shows "edge_path (fst item) ''dwt_approx'' \<notin> set (written (generate_special_cases l))"
    and "edge_path (fst item) ''dwt_detail'' \<notin> set (written (generate_special_cases l))"
proof -
  show "edge_path (fst item) ''dwt_approx'' \<notin> set (written (generate_special_cases l))"
  proof
    assume "edge_path (fst item) ''dwt_approx'' \<in> set (written (generate_special_cases l))"
    from special_written_cases [OF this] assms show False
      unfolding edge_names by (auto simp: edge_path_eq)
  qed
  show "edge_path (fst item) ''dwt_detail'' \<notin> set (written (generate_special_cases l))"
  proof
    assume "edge_path (fst item) ''dwt_detail'' \<in> set (written (generate_special_cases l))"
    from special_written_cases [OF this] assms show False
      unfolding edge_names by (auto simp: edge_path_eq)
  qed
qed

section \<open>No path is written twice\<close>

lemma digit_char_inj: "a < 10 \<Longrightarrow> b < 10 \<Longrightarrow> digit_char a = digit_char b \<Longrightarrow> a = b"
proof -
  assume "a < 10" "b < 10" and e: "digit_char a = digit_char b"
  then have "a \<in> {0,1,2,3,4,5,6,7,8,9}" "b \<in> {0,1,2,3,4,5,6,7,8,9}" by auto
  then show ?thesis using e by (auto simp: digit_char_def)
qed

lemma str_nat_inj: "str_nat n = str_nat m \<Longrightarrow> n = m"
proof (induction n arbitrary: m rule: str_nat.induct)
  case (1 n)
  have two: "2 \<le> length (str_nat k)" if "\<not> k < 10" for k
    using that str_nat_nonempty [of "k div 10"] by (subst str_nat.simps) simp
  have one: "length (str_nat k) = 1" if "k < 10" for k
    using that by (subst str_nat.simps) simp
  show ?case
  proof (cases "n < 10")
    case True
    then have "m < 10" using one [OF True] two [of m] "1.prems" by force
    then show ?thesis
      using True "1.prems" digit_char_inj [of n m]
      by (simp add: str_nat.simps [of n] str_nat.simps [of m])
  next
    case False
    then have m: "\<not> m < 10" using one [of m] two [OF False] "1.prems" by force
    have "str_nat (n div 10) @ [digit_char (n mod 10)] = str_nat (m div 10) @ [digit_char (m mod 10)]"
      using "1.prems" False m by (simp add: str_nat.simps [of n] str_nat.simps [of m])
    then have a: "str_nat (n div 10) = str_nat (m div 10)"
      and b: "digit_char (n mod 10) = digit_char (m mod 10)" by simp_all
    have "n div 10 = m div 10" using "1.IH" [OF False a] .
    moreover have "n mod 10 = m mod 10" using digit_char_inj [OF _ _ b] by simp
    ultimately show ?thesis by (metis div_mult_mod_eq)
  qed
qed

lemma str_nat_eq: "(str_nat n = str_nat m) = (n = m)"
  using str_nat_inj by blast

lemma distinct_written_andthen:
  assumes "distinct (written s)" "distinct (written t)"
    and "\<And>p. p \<in> set (written s) \<Longrightarrow> p \<in> set (written t) \<Longrightarrow> False"
  shows "distinct (written (andthen s t))"
  using assms by (auto simp: written_andthen)

lemma set_written_andthen:
  "p \<in> set (written (andthen s t)) \<Longrightarrow> p \<in> set (written s) \<or> p \<in> set (written t)"
  by (auto simp: written_andthen split: if_splits)

lemma distinct_written_for_each:
  assumes "distinct (map k xs)"
    and "\<And>x. x \<in> set xs \<Longrightarrow> distinct (written (f x))"
    and "\<And>x y p. x \<in> set xs \<Longrightarrow> y \<in> set xs \<Longrightarrow> p \<in> set (written (f x)) \<Longrightarrow>
           p \<in> set (written (f y)) \<Longrightarrow> k x = k y"
  shows "distinct (written (for_each f xs))"
  using assms
proof (induction xs)
  case Nil
  then show ?case by (simp add: written_def for_each_Cons)
next
  case (Cons x xs)
  have d: "distinct (written (for_each f xs))"
    using Cons.prems by (intro Cons.IH) auto
  have fx: "distinct (written (f x))" using Cons.prems(2) by simp
  have dis: False if p: "p \<in> set (written (f x))" and q: "p \<in> set (written (for_each f xs))" for p
  proof -
    obtain y where y: "y \<in> set xs" "p \<in> set (written (f y))"
      using q written_for_each_subset [of f xs] by auto
    have "k x = k y" using Cons.prems(3) [of x y p] p y by simp
    then show False using Cons.prems(1) y(1) by auto
  qed
  have w: "written (for_each f (x # xs))
      = (if snd (f x) = None then written (f x) @ written (for_each f xs) else written (f x))"
    by (simp add: written_def for_each_Cons)
  show ?case using d fx dis by (auto simp: w)
qed

lemma enumerate_keys: "distinct (map fst (enumerate xs))"
  by (simp add: enumerate_def)

lemma main_except_writes: "writes (main_except e) = []"
  by (cases e) (simp_all add: sys_exit_def)

lemma writes_try_except_main: "writes (try_except b main_except) = writes b"
proof (cases "snd b")
  case None
  then show ?thesis by (simp add: try_except_def)
next
  case (Some e)
  have "writes (fst b, None) = writes b" by (simp add: writes_def)
  then show ?thesis using Some by (simp add: try_except_def main_except_writes)
qed

lemma written_simps:
  "written skip = []" "written (raise e) = []" "written (print x) = []"
  "written (print_file_count d) = []" "written (write_file p txt) = [p]"
  "written (eval r k) = (case r of Inl e \<Rightarrow> [] | Inr v \<Rightarrow> written (k v))"
  "written (try_except_pass s) = written s"
  "written (save_vector dir data f h) = [os_path_join dir f]"
  "written (save_matrix dir rows f h) = [os_path_join dir f]"
  "written (save_complex_matrix dir crows f h) = [os_path_join dir f]"
  "written (andthen s t) = (if snd s = None then written s @ written t else written s)"
  by (simp_all add: written_def split: sum.splits)

lemma written_try_except_main: "written (try_except b main_except) = written b"
  by (simp add: written_def writes_try_except_main)

subsection \<open>The stages of the full generator\<close>

lemma fft_stage:
  "distinct (written (full_generate_fft_reference l))"
  "p \<in> set (written (full_generate_fft_reference l)) \<Longrightarrow> take 3 (drop 31 p) = ''fft''"
  by (auto simp: full_generate_fft_reference_def Let_def written_simps split: sum.splits if_splits)

lemma dwt_stage:
  "distinct (written (generate_dwt_reference l))"
  "p \<in> set (written (generate_dwt_reference l)) \<Longrightarrow> take 3 (drop 31 p) = ''dwt''"
proof -
  define body :: "nat \<times> pyfloat list \<Rightarrow> stmt" where "body = (\<lambda>(i, level_coeffs).
     save_vector full_output_dir level_coeffs (''dwt_haar_multilevel_'' @ str_nat i @ ''.txt'')
       (Some (''Haar multi-level decomposition level '' @ str_nat i)))"
  have w: "written (body x)
      = [''../src/test/resources/testdata/dwt_haar_multilevel_'' @ str_nat (fst x) @ ''.txt'']" for x
    by (cases x) (simp add: body_def written_simps)
  have d: "distinct (written (for_each body (enumerate cs)))" for cs
    by (rule distinct_written_for_each [where k = fst]) (auto simp: enumerate_keys w str_nat_eq)
  have k: "\<exists>i. q = ''../src/test/resources/testdata/dwt_haar_multilevel_'' @ str_nat i @ ''.txt''"
    if "q \<in> set (written (for_each body xs))" for q xs
    using that written_for_each_subset [of body xs] by (auto simp: w)
  show "distinct (written (generate_dwt_reference l))"
    unfolding generate_dwt_reference_def body_def [symmetric]
    using d by (auto simp: written_simps split: sum.splits if_splits dest!: k)
  show "take 3 (drop 31 p) = ''dwt''" if "p \<in> set (written (generate_dwt_reference l))"
    using that unfolding generate_dwt_reference_def body_def [symmetric]
    by (auto simp: written_simps split: sum.splits if_splits dest!: k)
qed

lemma modwt_stage:
  "distinct (written (generate_modwt_reference l))"
  "p \<in> set (written (generate_modwt_reference l)) \<Longrightarrow> take 3 (drop 31 p) = ''mod''"
proof -
  define body :: "nat \<times> pyfloat list \<times> pyfloat list \<Rightarrow> stmt" where "body = (\<lambda>(i, (approx, detail)). block [
       save_vector full_output_dir detail
         (''modwt_haar_detail_level'' @ str_nat (i + 1) @ ''.txt'')
         (Some (''MODWT Haar detail coefficients level '' @ str_nat (i + 1))),
       save_vector full_output_dir approx
         (''modwt_haar_approx_level'' @ str_nat (i + 1) @ ''.txt'')
         (Some (''MODWT Haar approximation coefficients level '' @ str_nat (i + 1)))])"
  have w: "written (body x)
      = [''../src/test/resources/testdata/modwt_haar_detail_level'' @ str_nat (fst x + 1) @ ''.txt'',
         ''../src/test/resources/testdata/modwt_haar_approx_level'' @ str_nat (fst x + 1) @ ''.txt'']" for x
    by (cases x) (simp add: body_def written_simps split: prod.splits)
  have d: "distinct (written (for_each body (enumerate cs)))" for cs
    by (rule distinct_written_for_each [where k = fst]) (auto simp: enumerate_keys w str_nat_eq)
  have k: "\<exists>i. q = ''../src/test/resources/testdata/modwt_haar_detail_level'' @ str_nat i @ ''.txt''
             \<or> q = ''../src/test/resources/testdata/modwt_haar_approx_level'' @ str_nat i @ ''.txt''"
    if "q \<in> set (written (for_each body xs))" for q xs
    using that written_for_each_subset [of body xs] by (auto simp: w)
  show "distinct (written (generate_modwt_reference l))"
    unfolding generate_modwt_reference_def body_def [symmetric]
    using d by (auto simp: written_simps split: sum.splits if_splits dest!: k)
  show "take 3 (drop 31 p) = ''mod''" if "p \<in> set (written (generate_modwt_reference l))"
    using that unfolding generate_modwt_reference_def body_def [symmetric]
    by (auto simp: written_simps split: sum.splits if_splits dest!: k)
qed

lemma cwt_stage:
  "distinct (written (generate_cwt_reference l))"
  "p \<in> set (written (generate_cwt_reference l)) \<Longrightarrow> take 3 (drop 31 p) = ''cwt''"
  by (auto simp: generate_cwt_reference_def Let_def written_simps split: sum.splits if_splits)

lemma wavelet_filters_written:
  "p \<in> set (written (wavelet_filters l w)) \<Longrightarrow>
     p = ''../src/test/resources/testdata/filter_'' @ w @ ''_dec_lo.txt''
   \<or> p = ''../src/test/resources/testdata/filter_'' @ w @ ''_dec_hi.txt''
   \<or> p = ''../src/test/resources/testdata/filter_'' @ w @ ''_rec_lo.txt''
   \<or> p = ''../src/test/resources/testdata/filter_'' @ w @ ''_rec_hi.txt''"
  by (auto simp: wavelet_filters_def written_simps split: sum.splits)

lemma wavelet_filters_distinct: "distinct (written (wavelet_filters l w))"
  by (auto simp: wavelet_filters_def written_simps split: sum.splits)

lemma filter_stage:
  "distinct (written (generate_wavelet_filter_reference l))"
  "p \<in> set (written (generate_wavelet_filter_reference l)) \<Longrightarrow> take 3 (drop 31 p) = ''fil''"
proof -
  have d: "distinct (written (for_each (wavelet_filters l) wavelets))"
  proof (rule distinct_written_for_each [where k = id])
    show "distinct (map id wavelets)" by (simp add: wavelets_def)
    show "distinct (written (wavelet_filters l x))" for x by (rule wavelet_filters_distinct)
    show "id x = id y"
      if "p \<in> set (written (wavelet_filters l x))" "p \<in> set (written (wavelet_filters l y))" for x y p
      using wavelet_filters_written [OF that(1)] wavelet_filters_written [OF that(2)] by auto
  qed
  have k: "take 3 (drop 31 q) = ''fil''" if "q \<in> set (written (for_each (wavelet_filters l) wavelets))" for q
    using that written_for_each_subset [of "wavelet_filters l" wavelets]
    by (auto dest!: wavelet_filters_written)
  show "distinct (written (generate_wavelet_filter_reference l))"
    using d by (auto simp: generate_wavelet_filter_reference_def written_simps)
  show "take 3 (drop 31 p) = ''fil''" if "p \<in> set (written (generate_wavelet_filter_reference l))"
    using that k by (auto simp: generate_wavelet_filter_reference_def written_simps split: if_splits)
qed

lemma edge_case_key:
  assumes "p \<in> set (written (edge_case l item))" "fst item \<noteq> []"
  shows "p ! 41 = hd (fst item) \<and> take 3 (drop 31 p) = ''edg''"
proof -
  obtain c cs where n: "fst item = c # cs" using assms(2) by (cases "fst item") auto
  show ?thesis
    using assms(1) by (auto simp: edge_case_written edge_path_eq n split: if_splits sum.splits)
qed

lemma edge_case_distinct: "distinct (written (edge_case l item))"
  by (auto simp: edge_case_written edge_path_eq split: sum.splits)

lemma edge_stage:
  "distinct (written (generate_special_cases l))"
  "p \<in> set (written (generate_special_cases l)) \<Longrightarrow> take 3 (drop 31 p) = ''edg''"
proof -
  have ne: "fst x \<noteq> []" if "x \<in> set edge_signals" for x
    using that by (auto simp: edge_names)
  have d: "distinct (written (for_each (edge_case l) edge_signals))"
  proof (rule distinct_written_for_each [where k = fst])
    show "distinct (map fst edge_signals)" by (simp add: edge_signals_def)
    show "distinct (written (edge_case l x))" for x by (rule edge_case_distinct)
    show "fst x = fst y"
      if x: "x \<in> set edge_signals" and y: "y \<in> set edge_signals"
        and "p \<in> set (written (edge_case l x))" "p \<in> set (written (edge_case l y))" for x y p
    proof -
      have "hd (fst x) = hd (fst y)"
        using edge_case_key [OF that(3) ne [OF x]] edge_case_key [OF that(4) ne [OF y]] by simp
      then show ?thesis using x y by (auto simp: edge_names)
    qed
  qed
  have k: "take 3 (drop 31 q) = ''edg''" if q: "q \<in> set (written (for_each (edge_case l) edge_signals))" for q
  proof -
    obtain x where "x \<in> set edge_signals" "q \<in> set (written (edge_case l x))"
      using q written_for_each_subset [of "edge_case l" edge_signals] by auto
    then show ?thesis using edge_case_key ne by blast
  qed
  show "distinct (written (generate_special_cases l))"
    using d by (auto simp: generate_special_cases_def written_simps)
  show "take 3 (drop 31 p) = ''edg''" if "p \<in> set (written (generate_special_cases l))"
    using that k by (auto simp: generate_special_cases_def written_simps split: if_splits)
qed

subsection \<open>The two scripts\<close>

lemma full_body_distinct:
  "distinct (written (block [
            full_generate_fft_reference l,
            generate_dwt_reference l,
            generate_modwt_reference l,
            generate_cwt_reference l,
            generate_wavelet_filter_reference l,
            generate_special_cases l,
            print (LF # ''=== Summary ===''),
            print (''Reference data generated successfully in '' @ full_output_dir),
            print_file_count full_output_dir]))"
  using fft_stage(1) [of l] dwt_stage(1) [of l] modwt_stage(1) [of l] cwt_stage(1) [of l]
    filter_stage(1) [of l] edge_stage(1) [of l]
  by (auto simp: written_simps
      dest!: fft_stage(2) dwt_stage(2) modwt_stage(2) cwt_stage(2) filter_stage(2) edge_stage(2))

lemma full_main_distinct: "distinct (written (full_main env))"
proof -
  define body where "body = block [
            full_generate_fft_reference (lib env),
            generate_dwt_reference (lib env),
            generate_modwt_reference (lib env),
            generate_cwt_reference (lib env),
            generate_wavelet_filter_reference (lib env),
            generate_special_cases (lib env),
            print (LF # ''=== Summary ===''),
            print (''Reference data generated successfully in '' @ full_output_dir),
            print_file_count full_output_dir]"
  have d: "distinct (written body)" unfolding body_def by (rule full_body_distinct)
  show ?thesis
    unfolding full_main_def body_def [symmetric]
    using d by (simp add: written_simps written_try_except_main)
qed

lemma full_script_distinct: "distinct (written (full_script env))"
  using full_main_distinct [of env]
  by (simp add: full_script_def import_module_def written_simps)

lemma basic_script_distinct: "distinct (written (basic_script pf))"
  by (simp add: written_def basic_writes)

section \<open>A run that completes, and the file both scripts write\<close>

lemma main_except_raises: "snd (main_except e) \<noteq> None"
  by (cases e) (simp_all add: sys_exit_def)

lemma try_except_main_ends: "(snd (try_except b main_except) = None) = (snd b = None)"
  by (cases "snd b") (simp_all add: try_except_def main_except_raises)

lemma full_script_success:
  assumes "snd (full_script env) = None"
  shows "snd (generate_wavelet_filter_reference (lib env)) = None"
    and "set (writes (generate_wavelet_filter_reference (lib env))) \<subseteq> set (writes (full_script env))"
proof -
  define body where "body = block [
            full_generate_fft_reference (lib env),
            generate_dwt_reference (lib env),
            generate_modwt_reference (lib env),
            generate_cwt_reference (lib env),
            generate_wavelet_filter_reference (lib env),
            generate_special_cases (lib env),
            print (LF # ''=== Summary ===''),
            print (''Reference data generated successfully in '' @ full_output_dir),
            print_file_count full_output_dir]"
  have m: "full_main env = block [
       print ''Generating reference test data for JWave...'',
       print (''Output directory: '' @ os_path_abspath env full_output_dir),
       try_except body main_except]"
    unfolding full_main_def body_def by (rule refl)
  have i: "snd (full_main env) = None \<and> writes (full_script env) = writes (full_main env)"
    using assms by (auto simp: full_script_def import_module_def split: if_splits)
  then have b: "snd body = None" by (simp add: m try_except_main_ends split: if_splits)
  have w: "writes (full_script env) = writes body"
    using i by (simp add: m writes_try_except_main)
  show "snd (generate_wavelet_filter_reference (lib env)) = None"
    using b unfolding body_def by (auto split: if_splits)
  show "set (writes (generate_wavelet_filter_reference (lib env))) \<subseteq> set (writes (full_script env))"
    using b unfolding w body_def by (auto split: if_splits)
qed

lemma filters_db2:
  assumes "snd (generate_wavelet_filter_reference l) = None"
  shows "\<exists>wv. pywt_Wavelet l ''db2'' = Inr wv
           \<and> (''../src/test/resources/testdata/filter_db2_dec_lo.txt'',
              header_text (Some ''db2 decomposition low-pass filter'') @ vector_body (dec_lo wv))
             \<in> set (writes (generate_wavelet_filter_reference l))"
proof -
  have c: "snd (for_each (wavelet_filters l) wavelets) = None"
    using assms by (simp add: generate_wavelet_filter_reference_def split: if_splits)
  note fc = for_each_completes [OF c]
  have "snd (wavelet_filters l ''db2'') = None" using fc by (simp add: wavelets_def)
  then obtain wv where wv: "pywt_Wavelet l ''db2'' = Inr wv"
    by (cases "pywt_Wavelet l ''db2''") (simp_all add: wavelet_filters_def)
  have "(''../src/test/resources/testdata/filter_db2_dec_lo.txt'',
          header_text (Some ''db2 decomposition low-pass filter'') @ vector_body (dec_lo wv))
        \<in> set (writes (wavelet_filters l ''db2''))"
    by (simp add: wavelet_filters_def wv)
  moreover have "set (writes (wavelet_filters l ''db2'')) \<subseteq> set (writes (for_each (wavelet_filters l) wavelets))"
    using fc by (auto simp: wavelets_def)
  ultimately show ?thesis
    using wv by (auto simp: generate_wavelet_filter_reference_def)
qed

lemma full_script_db2:
  assumes "snd (full_script env) = None"
  shows "\<exists>wv. pywt_Wavelet (lib env) ''db2'' = Inr wv
           \<and> (''../src/test/resources/testdata/filter_db2_dec_lo.txt'',
              header_text (Some ''db2 decomposition low-pass filter'') @ vector_body (dec_lo wv))
             \<in> set (writes (full_script env))"
  using filters_db2 [OF full_script_success(1) [OF assms]] full_script_success(2) [OF assms]
  by blast

lemma read_written_once:
  assumes "distinct (written s)" "(p, txt) \<in> set (writes s)"
  shows "read_file (run s w) p = Some txt"
proof -
  have "distinct (map fst (rev (writes s)))" using assms(1) by (simp add: written_def rev_map [symmetric])
  then have "map_of (rev (writes s)) p = Some txt" using assms(2) by (intro map_of_is_SomeI) auto
  then show ?thesis by (simp add: read_file_run)
qed

lemma example_run_completes: "snd (full_script example_env) = None"
  by (simp add: full_script_def import_module_def example_env_def full_main_def
      try_except_main_ends full_generate_fft_reference_def generate_dwt_reference_def
      generate_modwt_reference_def generate_cwt_reference_def
      generate_wavelet_filter_reference_def wavelet_filters_def
      special_cases_complete example_lib_def Let_def for_each_ends case_prod_beta)



section \<open>The claims\<close>

text \<open>
  Claim C1. Every finite float is written by the format \<^verbatim>\<open>.16e\<close> in lowercase
  scientific notation: a minus sign exactly when its sign bit is set, then the mantissa
  \<^verbatim>\<open>d.dddddddddddddddd\<close> (one digit, the point, sixteen digits), a lowercase e, the
  sign of the exponent and its digits, at least two. For zero and for a magnitude from 1e-99
  to below 1e99 the exponent has exactly two digits: the text after the minus sign is
  \<^verbatim>\<open>d.dddddddddddddddde+dd\<close> or \<^verbatim>\<open>d.dddddddddddddddde-dd\<close>, character by character.
  The three serializers write numbers in this format only: the lines of a vector file, the
  fields between the spaces of a matrix row, and the two parts around the comma of each
  field of a complex matrix row are the formatted elements, in order.
\<close>

theorem serialized_numbers_e16:
  "(is_finite x \<longrightarrow>
      sci_e16 (format_e16 x) \<and> (take 1 (format_e16 x) = ''-'') = sign_bit x
      \<and> (val x = 0 \<or> (1 / 10 ^ 99 \<le> \<bar>val x\<bar> \<and> \<bar>val x\<bar> < 10 ^ 99) \<longrightarrow>
           spec_pattern (if sign_bit x then drop 1 (format_e16 x) else format_e16 x)))
   \<and> read_file (run (save_vector dir data filename header) w) (os_path_join dir filename)
       = Some (header_text header @ vector_body data)
   \<and> read_file (run (save_matrix dir rows filename header) w) (os_path_join dir filename)
       = Some (header_text header @ matrix_body rows)
   \<and> read_file (run (save_complex_matrix dir crows filename header) w) (os_path_join dir filename)
       = Some (header_text header @ complex_matrix_body crows)
   \<and> file_lines (vector_body data) = map format_e16 data
   \<and> ([] \<notin> set rows \<longrightarrow>
        map (split_on CHR '' '') (file_lines (matrix_body rows)) = map (map format_e16) rows)
   \<and> ([] \<notin> set crows \<longrightarrow>
        map (map (split_on CHR '','') \<circ> split_on CHR '' '') (file_lines (complex_matrix_body crows))
          = map (map (\<lambda>z. [format_e16 (fst z), format_e16 (snd z)])) crows)"
  using format_e16_finite_shape [of x] format_e16_pattern [of x]
    save_vector_file save_matrix_file save_complex_matrix_file
    file_lines_vector_body matrix_fields [of rows] complex_matrix_fields [of crows]
  by blast

theorem serialized_numbers_e16_witness:
  "is_finite (Finite (- 1592262918131443 / 2251799813685248))
   \<and> 1 / 10 ^ 99 \<le> \<bar>val (Finite (- 1592262918131443 / 2251799813685248))\<bar>
   \<and> \<bar>val (Finite (- 1592262918131443 / 2251799813685248))\<bar> < 10 ^ 99
   \<and> format_e16 (Finite (- 1592262918131443 / 2251799813685248)) = ''-7.0710678118654746e-01''
   \<and> sci_e16 ''-7.0710678118654746e-01''
   \<and> spec_pattern ''7.0710678118654746e-01''
   \<and> [] \<notin> set [[Finite 1, Finite (- 1)]]
   \<and> map (split_on CHR '' '') (file_lines (matrix_body [[Finite 1, Finite (- 1)]]))
        = [[''1.0000000000000000e+00'', ''-1.0000000000000000e+00'']]
   \<and> [] \<notin> set [[(Finite 1, Finite (- 1))]]
   \<and> map (map (split_on CHR '','') \<circ> split_on CHR '' '')
        (file_lines (complex_matrix_body [[(Finite 1, Finite (- 1))]]))
        = [[[''1.0000000000000000e+00'', ''-1.0000000000000000e+00'']]]"
  using serialized_numbers_e16 [of "Finite (- 1592262918131443 / 2251799813685248)" "[]" "[]" "[]"
      None \<open>\<lparr>files = [], stdout = []\<rparr>\<close> "[[Finite 1, Finite (- 1)]]" "[[(Finite 1, Finite (- 1))]]"]
  by (simp add: fmt_sci_d1 fmt_sci_1)

text \<open>
  Claim C2, as amended. The file written by \<^verbatim>\<open>save_vector\<close> holds one line per element,
  in order, each the formatted element. It starts with the one line \<^verbatim>\<open># header\<close> when the
  header is a non-empty string without a line feed; there is no header line when the header
  is \<^verbatim>\<open>None\<close> or the empty string.
\<close>

theorem save_vector_lines:
  "read_file (run (save_vector dir data filename header) w) (os_path_join dir filename)
       = Some (header_text header @ vector_body data)
   \<and> file_lines (header_text None @ vector_body data) = map format_e16 data
   \<and> file_lines (header_text (Some []) @ vector_body data) = map format_e16 data
   \<and> (h \<noteq> [] \<and> LF \<notin> set h \<longrightarrow>
        file_lines (header_text (Some h) @ vector_body data) = (''# '' @ h) # map format_e16 data
        \<and> length (file_lines (header_text (Some h) @ vector_body data)) - 1 = length data)"
  using save_vector_file [of dir data filename header w] file_lines_header [of h "vector_body data"]
  by (simp add: header_text_def file_lines_vector_body)

theorem save_vector_lines_witness:
  "''DC signal (all ones)'' \<noteq> [] \<and> LF \<notin> set ''DC signal (all ones)''
   \<and> file_lines (header_text (Some ''DC signal (all ones)'') @ vector_body [Finite 1, Finite 1])
       = [''# DC signal (all ones)'', ''1.0000000000000000e+00'', ''1.0000000000000000e+00'']"
  using save_vector_lines [of "[]" "[Finite 1, Finite 1]" "[]" None
      \<open>\<lparr>files = [], stdout = []\<rparr>\<close> "''DC signal (all ones)''"]
  by (simp add: LF_def fmt_sci_1)

theorem save_vector_lines_counterexample:
  "file_lines (header_text (Some []) @ vector_body [Finite 1]) = [''1.0000000000000000e+00'']
   \<and> file_lines (header_text (Some []) @ vector_body [Finite 1])
       \<noteq> (''# '' @ []) # map format_e16 [Finite 1]
   \<and> file_lines (header_text (Some [CHR ''a'', LF, CHR ''b'']) @ vector_body [Finite 1])
       = [''# a'', ''b'', ''1.0000000000000000e+00'']
   \<and> file_lines (header_text (Some [CHR ''a'', LF, CHR ''b'']) @ vector_body [Finite 1])
       \<noteq> (''# '' @ [CHR ''a'', LF, CHR ''b'']) # map format_e16 [Finite 1]"
proof -
  have 1: "file_lines (header_text (Some []) @ vector_body [Finite 1]) = [''1.0000000000000000e+00'']"
    by (simp add: header_text_def file_lines_vector_body fmt_sci_1)
  have "LF \<notin> set ''# a''" "LF \<notin> set ''b''" by (simp_all add: LF_def)
  then have "file_lines (''# a'' @ LF # ''b'' @ LF # vector_body [Finite 1])
      = ''# a'' # ''b'' # file_lines (vector_body [Finite 1])"
    by (rule file_lines_two_headers)
  then have 2: "file_lines (header_text (Some [CHR ''a'', LF, CHR ''b'']) @ vector_body [Finite 1])
      = [''# a'', ''b'', ''1.0000000000000000e+00'']"
    by (simp add: header_text_def file_lines_vector_body fmt_sci_1)
  show ?thesis unfolding 1 2 by (simp add: fmt_sci_1)
qed

text \<open>
  Claim C3. The manual one-level Haar transform of the signal 1, ..., 8 takes the pairs at
  the even indices and gives four approximation and four detail coefficients. In the
  floating-point arithmetic of the script they are exactly the float quotients of 3, 7, 11,
  15 and of -1 by \<^verbatim>\<open>math.sqrt(2)\<close>, which is the float nearest to the square root of 2;
  as real numbers they differ from 3, 7, 11, 15 and -1 divided by the square root of 2 by
  less than 2e-15. These are the values the script writes.
\<close>

theorem manual_haar_transform:
  "haar_manual = Inr ([Finite (4776788754394329 / 2251799813685248), Finite (5572920213460051 / 1125899906842624), Finite (8757446049722937 / 1125899906842624), Finite (5970985942992911 / 562949953421312)], [Finite (- 1592262918131443 / 2251799813685248), Finite (- 1592262918131443 / 2251799813685248), Finite (- 1592262918131443 / 2251799813685248), Finite (- 1592262918131443 / 2251799813685248)])
   \<and> map (\<lambda>c. truediv (Finite c) math_sqrt_2) [3, 7, 11, 15] = map Inr [Finite (4776788754394329 / 2251799813685248), Finite (5572920213460051 / 1125899906842624), Finite (8757446049722937 / 1125899906842624), Finite (5970985942992911 / 562949953421312)]
   \<and> truediv (Finite (- 1)) math_sqrt_2 = Inr (Finite (- 1592262918131443 / 2251799813685248))
   \<and> \<bar>of_rat (val math_sqrt_2) - sqrt 2\<bar> < 1 / 2 ^ 53
   \<and> \<bar>of_rat (4776788754394329 / 2251799813685248) - 3 / sqrt 2\<bar> < 2 / 10 ^ 15
   \<and> \<bar>of_rat (5572920213460051 / 1125899906842624) - 7 / sqrt 2\<bar> < 2 / 10 ^ 15
   \<and> \<bar>of_rat (8757446049722937 / 1125899906842624) - 11 / sqrt 2\<bar> < 2 / 10 ^ 15
   \<and> \<bar>of_rat (5970985942992911 / 562949953421312) - 15 / sqrt 2\<bar> < 2 / 10 ^ 15
   \<and> \<bar>of_rat (- 1592262918131443 / 2251799813685248) - (- 1) / sqrt 2\<bar> < 2 / 10 ^ 15
   \<and> read_file (run (basic_script pf) w) ''../src/test/resources/testdata/haar_level1_approx_manual.txt''
       = Some (header_text (Some ''Haar level 1 approximation (manual calc)'') @ vector_body [Finite (4776788754394329 / 2251799813685248), Finite (5572920213460051 / 1125899906842624), Finite (8757446049722937 / 1125899906842624), Finite (5970985942992911 / 562949953421312)])
   \<and> file_lines (header_text (Some ''Haar level 1 approximation (manual calc)'') @ vector_body [Finite (4776788754394329 / 2251799813685248), Finite (5572920213460051 / 1125899906842624), Finite (8757446049722937 / 1125899906842624), Finite (5970985942992911 / 562949953421312)])
       = ''# Haar level 1 approximation (manual calc)'' # [''2.1213203435596424e+00'', ''4.9497474683058327e+00'', ''7.7781745930520225e+00'', ''1.0606601717798211e+01'']
   \<and> read_file (run (basic_script pf) w) ''../src/test/resources/testdata/haar_level1_detail_manual.txt''
       = Some (header_text (Some ''Haar level 1 detail (manual calc)'') @ vector_body [Finite (- 1592262918131443 / 2251799813685248), Finite (- 1592262918131443 / 2251799813685248), Finite (- 1592262918131443 / 2251799813685248), Finite (- 1592262918131443 / 2251799813685248)])
   \<and> file_lines (header_text (Some ''Haar level 1 detail (manual calc)'') @ vector_body [Finite (- 1592262918131443 / 2251799813685248), Finite (- 1592262918131443 / 2251799813685248), Finite (- 1592262918131443 / 2251799813685248), Finite (- 1592262918131443 / 2251799813685248)])
       = ''# Haar level 1 detail (manual calc)'' # [''-7.0710678118654746e-01'', ''-7.0710678118654746e-01'', ''-7.0710678118654746e-01'', ''-7.0710678118654746e-01'']"
proof -
  have 1: "map (\<lambda>c. truediv (Finite c) math_sqrt_2) [3, 7, 11, 15] = map Inr [Finite (4776788754394329 / 2251799813685248), Finite (5572920213460051 / 1125899906842624), Finite (8757446049722937 / 1125899906842624), Finite (5970985942992911 / 562949953421312)]"
    using truediv_3_sqrt2 truediv_7_sqrt2 truediv_11_sqrt2 truediv_15_sqrt2 by simp
  have 2: "read_file (run (basic_script pf) w) ''../src/test/resources/testdata/haar_level1_approx_manual.txt''
       = Some (header_text (Some ''Haar level 1 approximation (manual calc)'') @ vector_body [Finite (4776788754394329 / 2251799813685248), Finite (5572920213460051 / 1125899906842624), Finite (8757446049722937 / 1125899906842624), Finite (5970985942992911 / 562949953421312)])"
    by (simp add: read_file_run basic_writes)
  have 3: "read_file (run (basic_script pf) w) ''../src/test/resources/testdata/haar_level1_detail_manual.txt''
       = Some (header_text (Some ''Haar level 1 detail (manual calc)'') @ vector_body [Finite (- 1592262918131443 / 2251799813685248), Finite (- 1592262918131443 / 2251799813685248), Finite (- 1592262918131443 / 2251799813685248), Finite (- 1592262918131443 / 2251799813685248)])"
    by (simp add: read_file_run basic_writes)
  have 4: "file_lines (header_text (Some ''Haar level 1 approximation (manual calc)'') @ vector_body [Finite (4776788754394329 / 2251799813685248), Finite (5572920213460051 / 1125899906842624), Finite (8757446049722937 / 1125899906842624), Finite (5970985942992911 / 562949953421312)])
       = ''# Haar level 1 approximation (manual calc)'' # [''2.1213203435596424e+00'', ''4.9497474683058327e+00'', ''7.7781745930520225e+00'', ''1.0606601717798211e+01'']"
    by (subst header_lines) (simp_all add: LF_def fmt_sci_a3 fmt_sci_a7 fmt_sci_a11 fmt_sci_a15)
  have 5: "file_lines (header_text (Some ''Haar level 1 detail (manual calc)'') @ vector_body [Finite (- 1592262918131443 / 2251799813685248), Finite (- 1592262918131443 / 2251799813685248), Finite (- 1592262918131443 / 2251799813685248), Finite (- 1592262918131443 / 2251799813685248)])
       = ''# Haar level 1 detail (manual calc)'' # [''-7.0710678118654746e-01'', ''-7.0710678118654746e-01'', ''-7.0710678118654746e-01'', ''-7.0710678118654746e-01'']"
    by (subst header_lines) (simp_all add: LF_def fmt_sci_d1)
  show ?thesis
    using haar_manual_value 1 truediv_neg_1_sqrt2 math_sqrt_2_nearest near_a3 near_a7 near_a11
      near_a15 near_neg_d1 2 3 4 5
    by blast
qed

text \<open>
  Claim C4. The fixtures of the basic generator for the Fourier transform: for the signal
  of eight ones the real part is 8, the sum of the signal, followed by seven zeros, and the
  imaginary part is eight zeros; for the impulse with a one at index 0 the real part is
  eight ones and the imaginary part eight zeros. These are the files the script writes.
\<close>

theorem fft_fixtures:
  "dc_signal = [Finite 1, Finite 1, Finite 1, Finite 1, Finite 1, Finite 1, Finite 1, Finite 1]
   \<and> dc_fft_real = [Finite 8, Finite 0, Finite 0, Finite 0, Finite 0, Finite 0, Finite 0, Finite 0]
   \<and> val (hd dc_fft_real) = sum_list (map val dc_signal)
   \<and> dc_fft_imag = [Finite 0, Finite 0, Finite 0, Finite 0, Finite 0, Finite 0, Finite 0, Finite 0]
   \<and> impulse = [Finite 1, Finite 0, Finite 0, Finite 0, Finite 0, Finite 0, Finite 0, Finite 0]
   \<and> impulse_fft_real = [Finite 1, Finite 1, Finite 1, Finite 1, Finite 1, Finite 1, Finite 1, Finite 1]
   \<and> impulse_fft_imag = [Finite 0, Finite 0, Finite 0, Finite 0, Finite 0, Finite 0, Finite 0, Finite 0]
   \<and> read_file (run (basic_script pf) w) ''../src/test/resources/testdata/fft_dc_output_real.txt''
       = Some (header_text (Some ''FFT of DC signal (real part)'') @ vector_body dc_fft_real)
   \<and> file_lines (header_text (Some ''FFT of DC signal (real part)'') @ vector_body dc_fft_real)
       = ''# FFT of DC signal (real part)'' # [''8.0000000000000000e+00'', ''0.0000000000000000e+00'', ''0.0000000000000000e+00'', ''0.0000000000000000e+00'', ''0.0000000000000000e+00'', ''0.0000000000000000e+00'', ''0.0000000000000000e+00'', ''0.0000000000000000e+00'']
   \<and> read_file (run (basic_script pf) w) ''../src/test/resources/testdata/fft_dc_output_imag.txt''
       = Some (header_text (Some ''FFT of DC signal (imaginary part)'') @ vector_body dc_fft_imag)
   \<and> file_lines (header_text (Some ''FFT of DC signal (imaginary part)'') @ vector_body dc_fft_imag)
       = ''# FFT of DC signal (imaginary part)'' # [''0.0000000000000000e+00'', ''0.0000000000000000e+00'', ''0.0000000000000000e+00'', ''0.0000000000000000e+00'', ''0.0000000000000000e+00'', ''0.0000000000000000e+00'', ''0.0000000000000000e+00'', ''0.0000000000000000e+00'']
   \<and> read_file (run (basic_script pf) w) ''../src/test/resources/testdata/fft_impulse_output_real.txt''
       = Some (header_text (Some ''FFT of impulse (real)'') @ vector_body impulse_fft_real)
   \<and> file_lines (header_text (Some ''FFT of impulse (real)'') @ vector_body impulse_fft_real)
       = ''# FFT of impulse (real)'' # [''1.0000000000000000e+00'', ''1.0000000000000000e+00'', ''1.0000000000000000e+00'', ''1.0000000000000000e+00'', ''1.0000000000000000e+00'', ''1.0000000000000000e+00'', ''1.0000000000000000e+00'', ''1.0000000000000000e+00'']
   \<and> read_file (run (basic_script pf) w) ''../src/test/resources/testdata/fft_impulse_output_imag.txt''
       = Some (header_text (Some ''FFT of impulse (imag)'') @ vector_body impulse_fft_imag)
   \<and> file_lines (header_text (Some ''FFT of impulse (imag)'') @ vector_body impulse_fft_imag)
       = ''# FFT of impulse (imag)'' # [''0.0000000000000000e+00'', ''0.0000000000000000e+00'', ''0.0000000000000000e+00'', ''0.0000000000000000e+00'', ''0.0000000000000000e+00'', ''0.0000000000000000e+00'', ''0.0000000000000000e+00'', ''0.0000000000000000e+00'']"
proof -
  have v: "dc_signal = [Finite 1, Finite 1, Finite 1, Finite 1, Finite 1, Finite 1, Finite 1, Finite 1]" "dc_fft_real = [Finite 8, Finite 0, Finite 0, Finite 0, Finite 0, Finite 0, Finite 0, Finite 0]" "dc_fft_imag = [Finite 0, Finite 0, Finite 0, Finite 0, Finite 0, Finite 0, Finite 0, Finite 0]" "impulse = [Finite 1, Finite 0, Finite 0, Finite 0, Finite 0, Finite 0, Finite 0, Finite 0]"
    "impulse_fft_real = [Finite 1, Finite 1, Finite 1, Finite 1, Finite 1, Finite 1, Finite 1, Finite 1]" "impulse_fft_imag = [Finite 0, Finite 0, Finite 0, Finite 0, Finite 0, Finite 0, Finite 0, Finite 0]"
    by (simp_all add: dc_signal_def dc_fft_real_def dc_fft_imag_def impulse_def
        impulse_fft_real_def impulse_fft_imag_def numeral_eq_Suc)
  have s: "val (hd dc_fft_real) = sum_list (map val dc_signal)" unfolding v by simp
  have f0: "fmt_sci 0 = ''0.0000000000000000e+00''" by (simp add: fmt_sci_def)
  have r: "read_file (run (basic_script pf) w) ''../src/test/resources/testdata/fft_dc_output_real.txt''
       = Some (header_text (Some ''FFT of DC signal (real part)'') @ vector_body dc_fft_real)"
    "read_file (run (basic_script pf) w) ''../src/test/resources/testdata/fft_dc_output_imag.txt''
       = Some (header_text (Some ''FFT of DC signal (imaginary part)'') @ vector_body dc_fft_imag)"
    "read_file (run (basic_script pf) w) ''../src/test/resources/testdata/fft_impulse_output_real.txt''
       = Some (header_text (Some ''FFT of impulse (real)'') @ vector_body impulse_fft_real)"
    "read_file (run (basic_script pf) w) ''../src/test/resources/testdata/fft_impulse_output_imag.txt''
       = Some (header_text (Some ''FFT of impulse (imag)'') @ vector_body impulse_fft_imag)"
    by (simp_all add: read_file_run basic_writes)
  have l: "file_lines (header_text (Some ''FFT of DC signal (real part)'') @ vector_body dc_fft_real)
       = ''# FFT of DC signal (real part)'' # [''8.0000000000000000e+00'', ''0.0000000000000000e+00'', ''0.0000000000000000e+00'', ''0.0000000000000000e+00'', ''0.0000000000000000e+00'', ''0.0000000000000000e+00'', ''0.0000000000000000e+00'', ''0.0000000000000000e+00'']"
    "file_lines (header_text (Some ''FFT of DC signal (imaginary part)'') @ vector_body dc_fft_imag)
       = ''# FFT of DC signal (imaginary part)'' # [''0.0000000000000000e+00'', ''0.0000000000000000e+00'', ''0.0000000000000000e+00'', ''0.0000000000000000e+00'', ''0.0000000000000000e+00'', ''0.0000000000000000e+00'', ''0.0000000000000000e+00'', ''0.0000000000000000e+00'']"
    "file_lines (header_text (Some ''FFT of impulse (real)'') @ vector_body impulse_fft_real)
       = ''# FFT of impulse (real)'' # [''1.0000000000000000e+00'', ''1.0000000000000000e+00'', ''1.0000000000000000e+00'', ''1.0000000000000000e+00'', ''1.0000000000000000e+00'', ''1.0000000000000000e+00'', ''1.0000000000000000e+00'', ''1.0000000000000000e+00'']"
    "file_lines (header_text (Some ''FFT of impulse (imag)'') @ vector_body impulse_fft_imag)
       = ''# FFT of impulse (imag)'' # [''0.0000000000000000e+00'', ''0.0000000000000000e+00'', ''0.0000000000000000e+00'', ''0.0000000000000000e+00'', ''0.0000000000000000e+00'', ''0.0000000000000000e+00'', ''0.0000000000000000e+00'', ''0.0000000000000000e+00'']"
    unfolding v by (subst header_lines; simp add: LF_def fmt_sci_1 fmt_sci_8 f0)+
  show ?thesis using v s r l by blast
qed

text \<open>
  Claim C7, at the input where it fails. With numpy missing, the first import statement of
  the module raises: the script ends with the uncaught ImportError and the exit status 1,
  having written no file and printed nothing, so the line
  \<^verbatim>\<open>pip install numpy scipy pywavelets\<close> of the handler in \<^verbatim>\<open>main\<close> is not printed.
  The handlers themselves do what the claim says for an exception raised inside the
  \<^verbatim>\<open>try\<close> block: the three lines and \<^verbatim>\<open>sys.exit(1)\<close> for an ImportError, the message
  of the exception and \<^verbatim>\<open>sys.exit(1)\<close> for another exception.
\<close>

theorem missing_numpy_run:
  "full_script (env\<lparr>installed := (\<lambda>m. m \<noteq> ''numpy'')\<rparr>)
     = ([], Some (ImportError (''No module named '' @ [CHR 0x27] @ ''numpy'' @ [CHR 0x27])))
   \<and> run (full_script (env\<lparr>installed := (\<lambda>m. m \<noteq> ''numpy'')\<rparr>)) w = w
   \<and> exit_status (full_script (env\<lparr>installed := (\<lambda>m. m \<noteq> ''numpy'')\<rparr>)) = 1
   \<and> Print pip_install_line \<notin> set (fst (full_script (env\<lparr>installed := (\<lambda>m. m \<noteq> ''numpy'')\<rparr>)))
   \<and> try_except (acts, Some (ImportError m)) main_except
       = (acts @ [Print (LF # ''Error: Missing required Python package.''),
                  Print ''Please install required packages:'',
                  Print pip_install_line], Some (SystemExit 1))
   \<and> try_except (acts, Some (Error m)) main_except
       = (acts @ [Print (LF # ''Error generating reference data: '' @ m)], Some (SystemExit 1))
   \<and> exit_status (acts, Some (SystemExit 1)) = 1"
proof -
  have 1: "full_script (env\<lparr>installed := (\<lambda>m. m \<noteq> ''numpy'')\<rparr>)
     = ([], Some (ImportError (''No module named '' @ [CHR 0x27] @ ''numpy'' @ [CHR 0x27])))"
    by (simp add: full_script_def import_module_def andthen_def raise_def)
  show ?thesis unfolding 1
    by (simp add: run_def exit_status_def try_except_def andthen_def print_def sys_exit_def
        raise_def skip_def)
qed



text \<open>
  Claim C6. For an edge case with more than one sample whose wavelet transform raises,
  whatever the exception: the step of the loop does the three writes of the input and of
  the Fourier transform with their confirmations, prints nothing else, and ends normally,
  so the loop goes on; neither the approximation nor the detail file of that case is
  written by the pass. An exception that leaves the pass is never the one of a wavelet
  transform but the one of a Fourier transform; when no Fourier transform raises the pass
  ends normally and has written the input and Fourier files of every non-empty case.
\<close>

theorem dwt_failure_ignored:
  "item \<in> set edge_signals \<and> 1 < length (snd item)
     \<and> pywt_dwt l (snd item) ''haar'' = Inl e \<and> fft_of_real l (snd item) = Inr F \<longrightarrow>
   edge_case l item =
     ([Write (edge_path (fst item) ''input'')
         (header_text (Some (''Edge case: '' @ fst item)) @ vector_body (snd item)),
       Print (''Generated: edge_case_'' @ fst item @ ''_input.txt''),
       Write (edge_path (fst item) ''fft_real'')
         (header_text (Some (''FFT real part of '' @ fst item)) @ vector_body (map fst F)),
       Print (''Generated: edge_case_'' @ fst item @ ''_fft_real.txt''),
       Write (edge_path (fst item) ''fft_imag'')
         (header_text (Some (''FFT imag part of '' @ fst item)) @ vector_body (map snd F)),
       Print (''Generated: edge_case_'' @ fst item @ ''_fft_imag.txt'')], None)
   \<and> edge_path (fst item) ''dwt_approx'' \<notin> set (written (generate_special_cases l))
   \<and> edge_path (fst item) ''dwt_detail'' \<notin> set (written (generate_special_cases l))
   \<and> (\<forall>x. snd (generate_special_cases l) = Some x \<longrightarrow>
         (\<exists>it\<in>set edge_signals. fft_of_real l (snd it) = Inl x))
   \<and> ((\<forall>it\<in>set edge_signals. snd it \<noteq> [] \<longrightarrow> \<not> isl (fft_of_real l (snd it))) \<longrightarrow>
         snd (generate_special_cases l) = None
         \<and> (\<forall>it\<in>set edge_signals. snd it \<noteq> [] \<longrightarrow>
               edge_path (fst it) ''input'' \<in> set (written (generate_special_cases l))
               \<and> edge_path (fst it) ''fft_real'' \<in> set (written (generate_special_cases l))
               \<and> edge_path (fst it) ''fft_imag'' \<in> set (written (generate_special_cases l))))"
proof (intro impI, elim conjE)
  assume i: "item \<in> set edge_signals" and n: "1 < length (snd item)"
    and d: "pywt_dwt l (snd item) ''haar'' = Inl e" and f: "fft_of_real l (snd item) = Inr F"
  have isl: "isl (pywt_dwt l (snd item) ''haar'')" using d by simp
  have files: "edge_path (fst it) ''input'' \<in> set (written (generate_special_cases l))
       \<and> edge_path (fst it) ''fft_real'' \<in> set (written (generate_special_cases l))
       \<and> edge_path (fst it) ''fft_imag'' \<in> set (written (generate_special_cases l))"
    if c: "snd (generate_special_cases l) = None" and it: "it \<in> set edge_signals" "snd it \<noteq> []"
    for it
    using spec_files_in_written [OF c it(1)] it(2) by (simp add: spec_edge_case_files_def Let_def)
  show "edge_case l item =
     ([Write (edge_path (fst item) ''input'')
         (header_text (Some (''Edge case: '' @ fst item)) @ vector_body (snd item)),
       Print (''Generated: edge_case_'' @ fst item @ ''_input.txt''),
       Write (edge_path (fst item) ''fft_real'')
         (header_text (Some (''FFT real part of '' @ fst item)) @ vector_body (map fst F)),
       Print (''Generated: edge_case_'' @ fst item @ ''_fft_real.txt''),
       Write (edge_path (fst item) ''fft_imag'')
         (header_text (Some (''FFT imag part of '' @ fst item)) @ vector_body (map snd F)),
       Print (''Generated: edge_case_'' @ fst item @ ''_fft_imag.txt'')], None)
   \<and> edge_path (fst item) ''dwt_approx'' \<notin> set (written (generate_special_cases l))
   \<and> edge_path (fst item) ''dwt_detail'' \<notin> set (written (generate_special_cases l))
   \<and> (\<forall>x. snd (generate_special_cases l) = Some x \<longrightarrow>
         (\<exists>it\<in>set edge_signals. fft_of_real l (snd it) = Inl x))
   \<and> ((\<forall>it\<in>set edge_signals. snd it \<noteq> [] \<longrightarrow> \<not> isl (fft_of_real l (snd it))) \<longrightarrow>
         snd (generate_special_cases l) = None
         \<and> (\<forall>it\<in>set edge_signals. snd it \<noteq> [] \<longrightarrow>
               edge_path (fst it) ''input'' \<in> set (written (generate_special_cases l))
               \<and> edge_path (fst it) ''fft_real'' \<in> set (written (generate_special_cases l))
               \<and> edge_path (fst it) ''fft_imag'' \<in> set (written (generate_special_cases l))))"
    using edge_case_dwt_fails [OF n d f] dwt_files_absent [OF i isl] special_cases_exception [of l]
      special_cases_complete [of l] files
    by blast
qed

theorem dwt_failure_ignored_witness:
  "(''ones'', replicate 8 (Finite 1)) \<in> set edge_signals
   \<and> 1 < length (snd (''ones'', replicate 8 (Finite 1)))
   \<and> pywt_dwt failing_dwt_lib (snd (''ones'', replicate 8 (Finite 1))) ''haar'' = Inl (Error ''dwt failed'')
   \<and> fft_of_real failing_dwt_lib (snd (''ones'', replicate 8 (Finite 1)))
       = Inr (map (\<lambda>x. (x, Finite 0)) (replicate 8 (Finite 1)))
   \<and> snd (edge_case failing_dwt_lib (''ones'', replicate 8 (Finite 1))) = None
   \<and> edge_path ''ones'' ''dwt_approx'' \<notin> set (written (generate_special_cases failing_dwt_lib))
   \<and> edge_path ''ones'' ''dwt_detail'' \<notin> set (written (generate_special_cases failing_dwt_lib))
   \<and> snd (generate_special_cases failing_dwt_lib) = None
   \<and> edge_path ''impulse'' ''input'' \<in> set (written (generate_special_cases failing_dwt_lib))"
proof -
  have i: "(''ones'', replicate 8 (Finite 1)) \<in> set edge_signals" by (simp add: edge_names)
  have j: "(''impulse'', map Finite [0, 0, 0, 1, 0, 0, 0, 0]) \<in> set edge_signals"
    by (simp add: edge_names)
  have n: "1 < length (snd (''ones'', replicate 8 (Finite 1 :: pyfloat)))" by simp
  have d: "pywt_dwt failing_dwt_lib (snd (''ones'', replicate 8 (Finite 1))) ''haar''
      = Inl (Error ''dwt failed'')"
    by (simp add: failing_dwt_lib_def)
  have f: "fft_of_real failing_dwt_lib (snd (''ones'', replicate 8 (Finite 1)))
       = Inr (map (\<lambda>x. (x, Finite 0)) (replicate 8 (Finite 1)))"
    by (simp add: failing_dwt_lib_def example_lib_def)
  have a: "\<forall>it\<in>set edge_signals. snd it \<noteq> [] \<longrightarrow> \<not> isl (fft_of_real failing_dwt_lib (snd it))"
    by (simp add: failing_dwt_lib_def example_lib_def)
  note t = dwt_failure_ignored [of "(''ones'', replicate 8 (Finite 1))" failing_dwt_lib
      "Error ''dwt failed''" "map (\<lambda>x. (x, Finite 0)) (replicate 8 (Finite 1))", rule_format,
      OF conjI [OF i conjI [OF n conjI [OF d f]]]]
  have e: "snd (edge_case failing_dwt_lib (''ones'', replicate 8 (Finite 1))) = None"
    using t by simp
  have c: "snd (generate_special_cases failing_dwt_lib) = None
      \<and> (\<forall>it\<in>set edge_signals. snd it \<noteq> [] \<longrightarrow>
            edge_path (fst it) ''input'' \<in> set (written (generate_special_cases failing_dwt_lib))
            \<and> edge_path (fst it) ''fft_real'' \<in> set (written (generate_special_cases failing_dwt_lib))
            \<and> edge_path (fst it) ''fft_imag'' \<in> set (written (generate_special_cases failing_dwt_lib)))"
    using t a by blast
  have k: "edge_path ''impulse'' ''input'' \<in> set (written (generate_special_cases failing_dwt_lib))"
    using c j by fastforce
  have x: "edge_path ''ones'' ''dwt_approx'' \<notin> set (written (generate_special_cases failing_dwt_lib))"
    "edge_path ''ones'' ''dwt_detail'' \<notin> set (written (generate_special_cases failing_dwt_lib))"
    using t by simp_all
  show ?thesis using i n d f e x c k by blast
qed

text \<open>
  Claim C8. Within one run of either generator no path is opened for writing twice: the
  paths written by the main function of the basic generator are pairwise distinct, and so are
  those written by the main function of the full generator, whatever the library returns
  (however many levels the multi-level transforms give, whichever call raises) and whatever
  is installed. The same holds for the scripts as run from their first line.
\<close>

theorem no_path_written_twice:
  "distinct (written (basic_main pf)) \<and> distinct (written (basic_script pf))
   \<and> distinct (written (full_main env)) \<and> distinct (written (full_script env))
   \<and> length (written (basic_main pf)) = 20"
proof -
  have "length (written (basic_script pf)) = 20" by (simp add: written_def basic_writes)
  then show ?thesis
    using basic_script_distinct [of pf] full_main_distinct [of env] full_script_distinct [of env]
    by (simp add: basic_script_def)
qed



text \<open>
  Claim C10. The two generators have the same output directory and both write the file
  filter\_db2\_dec\_lo.txt there. The basic generator writes the two taps of the Haar low-pass
  filter, the float quotient of 1 by the square root of 2 twice, under the header
  ``Daubechies 2 = Haar'': three lines with the header. A run of the full generator that
  completes writes the decomposition low-pass filter that the library gives for db2, one
  line per tap under the header ``db2 decomposition low-pass filter'': five lines with the
  header when the library's filter has four taps. The two texts differ, and after one
  generator has run and then the other, the file holds the text of the one that ran last.
\<close>

theorem shared_filter_db2_file:
  "basic_output_dir = full_output_dir
   \<and> os_path_join basic_output_dir ''filter_db2_dec_lo.txt''
       = ''../src/test/resources/testdata/filter_db2_dec_lo.txt''
   \<and> os_path_join full_output_dir ''filter_db2_dec_lo.txt''
       = ''../src/test/resources/testdata/filter_db2_dec_lo.txt''
   \<and> haar_filter [1, 1] = Inr [Finite (1592262918131443 / 2251799813685248),
                                Finite (1592262918131443 / 2251799813685248)]
   \<and> \<bar>of_rat (1592262918131443 / 2251799813685248) - 1 / sqrt 2\<bar> < 2 / 10 ^ 15
   \<and> read_file (run (basic_script pf) w) ''../src/test/resources/testdata/filter_db2_dec_lo.txt''
       = Some (header_text (Some ''Daubechies 2 = Haar'')
               @ vector_body [Finite (1592262918131443 / 2251799813685248),
                              Finite (1592262918131443 / 2251799813685248)])
   \<and> file_lines (header_text (Some ''Daubechies 2 = Haar'')
               @ vector_body [Finite (1592262918131443 / 2251799813685248),
                              Finite (1592262918131443 / 2251799813685248)])
       = [''# Daubechies 2 = Haar'', ''7.0710678118654746e-01'', ''7.0710678118654746e-01'']
   \<and> (snd (full_script env) = None \<longrightarrow>
        (\<exists>wv. pywt_Wavelet (lib env) ''db2'' = Inr wv
           \<and> read_file (run (full_script env) w) ''../src/test/resources/testdata/filter_db2_dec_lo.txt''
               = Some (header_text (Some ''db2 decomposition low-pass filter'') @ vector_body (dec_lo wv))
           \<and> file_lines (header_text (Some ''db2 decomposition low-pass filter'') @ vector_body (dec_lo wv))
               = ''# db2 decomposition low-pass filter'' # map format_e16 (dec_lo wv)
           \<and> header_text (Some ''db2 decomposition low-pass filter'') @ vector_body (dec_lo wv)
               \<noteq> header_text (Some ''Daubechies 2 = Haar'')
                  @ vector_body [Finite (1592262918131443 / 2251799813685248),
                                 Finite (1592262918131443 / 2251799813685248)]
           \<and> read_file (run (full_script env) (run (basic_script pf) w))
                 ''../src/test/resources/testdata/filter_db2_dec_lo.txt''
               = Some (header_text (Some ''db2 decomposition low-pass filter'') @ vector_body (dec_lo wv))
           \<and> read_file (run (basic_script pf) (run (full_script env) w))
                 ''../src/test/resources/testdata/filter_db2_dec_lo.txt''
               = Some (header_text (Some ''Daubechies 2 = Haar'')
                       @ vector_body [Finite (1592262918131443 / 2251799813685248),
                                      Finite (1592262918131443 / 2251799813685248)])
           \<and> (length (dec_lo wv) = 4 \<longrightarrow>
                length (file_lines (header_text (Some ''db2 decomposition low-pass filter'')
                                    @ vector_body (dec_lo wv))) = 5)))"
proof -
  let ?P = "''../src/test/resources/testdata/filter_db2_dec_lo.txt''"
  let ?basic = "header_text (Some ''Daubechies 2 = Haar'')
               @ vector_body [Finite (1592262918131443 / 2251799813685248),
                              Finite (1592262918131443 / 2251799813685248)]"
  have d: "basic_output_dir = full_output_dir" "os_path_join basic_output_dir ''filter_db2_dec_lo.txt'' = ?P"
    "os_path_join full_output_dir ''filter_db2_dec_lo.txt'' = ?P"
    by (simp_all add: basic_output_dir_def full_output_dir_def os_path_join_def)
  have b: "read_file (run (basic_script pf) v) ?P = Some ?basic" for v
    by (simp add: read_file_run basic_writes)
  have bl: "file_lines ?basic
      = [''# Daubechies 2 = Haar'', ''7.0710678118654746e-01'', ''7.0710678118654746e-01'']"
    by (subst header_lines; simp add: LF_def fmt_sci_d1)
  have f: "\<exists>wv. pywt_Wavelet (lib env) ''db2'' = Inr wv
           \<and> read_file (run (full_script env) w) ?P
               = Some (header_text (Some ''db2 decomposition low-pass filter'') @ vector_body (dec_lo wv))
           \<and> file_lines (header_text (Some ''db2 decomposition low-pass filter'') @ vector_body (dec_lo wv))
               = ''# db2 decomposition low-pass filter'' # map format_e16 (dec_lo wv)
           \<and> header_text (Some ''db2 decomposition low-pass filter'') @ vector_body (dec_lo wv) \<noteq> ?basic
           \<and> read_file (run (full_script env) (run (basic_script pf) w)) ?P
               = Some (header_text (Some ''db2 decomposition low-pass filter'') @ vector_body (dec_lo wv))
           \<and> read_file (run (basic_script pf) (run (full_script env) w)) ?P = Some ?basic
           \<and> (length (dec_lo wv) = 4 \<longrightarrow>
                length (file_lines (header_text (Some ''db2 decomposition low-pass filter'')
                                    @ vector_body (dec_lo wv))) = 5)"
    if c: "snd (full_script env) = None"
  proof -
    from full_script_db2 [OF c] obtain wv where wv: "pywt_Wavelet (lib env) ''db2'' = Inr wv"
      and m: "(?P, header_text (Some ''db2 decomposition low-pass filter'') @ vector_body (dec_lo wv))
             \<in> set (writes (full_script env))"
      by blast
    have r: "read_file (run (full_script env) v) ?P
        = Some (header_text (Some ''db2 decomposition low-pass filter'') @ vector_body (dec_lo wv))" for v
      using read_written_once [OF full_script_distinct m] .
    have fl: "file_lines (header_text (Some ''db2 decomposition low-pass filter'') @ vector_body (dec_lo wv))
        = ''# db2 decomposition low-pass filter'' # map format_e16 (dec_lo wv)"
      by (subst header_lines; simp add: LF_def)
    have ne: "header_text (Some ''db2 decomposition low-pass filter'') @ vector_body (dec_lo wv) \<noteq> ?basic"
      by (simp add: header_text_def)
    show ?thesis using wv r b fl ne by simp
  qed
  show ?thesis
    using d haar_filter_values(1) near_d1 b [of w] bl f by blast
qed

theorem shared_filter_db2_file_witness:
  "snd (full_script example_env) = None
   \<and> pywt_Wavelet (lib example_env) ''db2''
       = Inr \<lparr>dec_lo = replicate 4 (Finite 1), dec_hi = replicate 4 (Finite 1),
              rec_lo = replicate 4 (Finite 1), rec_hi = replicate 4 (Finite 1)\<rparr>
   \<and> read_file (run (full_script example_env)
         (run (basic_script example_platform) \<lparr>files = [], stdout = []\<rparr>))
         ''../src/test/resources/testdata/filter_db2_dec_lo.txt''
       = Some (header_text (Some ''db2 decomposition low-pass filter'') @ vector_body (replicate 4 (Finite 1)))
   \<and> read_file (run (basic_script example_platform)
         (run (full_script example_env) \<lparr>files = [], stdout = []\<rparr>))
         ''../src/test/resources/testdata/filter_db2_dec_lo.txt''
       = Some (header_text (Some ''Daubechies 2 = Haar'')
               @ vector_body [Finite (1592262918131443 / 2251799813685248),
                              Finite (1592262918131443 / 2251799813685248)])
   \<and> length (file_lines (header_text (Some ''db2 decomposition low-pass filter'')
                          @ vector_body (replicate 4 (Finite 1)))) = 5"
proof -
  have c: "snd (full_script example_env) = None" by (rule example_run_completes)
  have e: "pywt_Wavelet (lib example_env) ''db2''
       = Inr \<lparr>dec_lo = replicate 4 (Finite 1), dec_hi = replicate 4 (Finite 1),
              rec_lo = replicate 4 (Finite 1), rec_hi = replicate 4 (Finite 1)\<rparr>"
    by (simp add: example_env_def example_lib_def)
  from shared_filter_db2_file [of example_platform "\<lparr>files = [], stdout = []\<rparr>" example_env] c
  obtain wv where wv: "pywt_Wavelet (lib example_env) ''db2'' = Inr wv"
    and r1: "read_file (run (full_script example_env)
         (run (basic_script example_platform) \<lparr>files = [], stdout = []\<rparr>))
         ''../src/test/resources/testdata/filter_db2_dec_lo.txt''
       = Some (header_text (Some ''db2 decomposition low-pass filter'') @ vector_body (dec_lo wv))"
    and r2: "read_file (run (basic_script example_platform)
         (run (full_script example_env) \<lparr>files = [], stdout = []\<rparr>))
         ''../src/test/resources/testdata/filter_db2_dec_lo.txt''
       = Some (header_text (Some ''Daubechies 2 = Haar'')
               @ vector_body [Finite (1592262918131443 / 2251799813685248),
                              Finite (1592262918131443 / 2251799813685248)])"
    and n: "length (dec_lo wv) = 4 \<longrightarrow>
                length (file_lines (header_text (Some ''db2 decomposition low-pass filter'')
                                    @ vector_body (dec_lo wv))) = 5"
    by blast
  have "dec_lo wv = replicate 4 (Finite 1)" using wv e by auto
  then show ?thesis using c e r1 r2 n by simp
qed

end
